theory Spec2Isabelle
  imports Main "HOL-Library.DAList"
begin

section \<open>Job state store (src/providers/ScanningProvider.tsx)\<close>

text \<open>
  A JavaScript \<^verbatim>\<open>Map<string, V>\<close> is a list of entries with pairwise distinct keys,
  kept in insertion order: \<^verbatim>\<open>get\<close> is \<^const>\<open>DAList.lookup\<close>, \<^verbatim>\<open>set\<close> is
  \<^const>\<open>DAList.update\<close> (an existing key keeps its position, a new key is appended),
  \<^verbatim>\<open>delete\<close> is \<^const>\<open>DAList.delete\<close>, \<^verbatim>\<open>forEach\<close> walks \<^const>\<open>DAList.impl_of\<close>.
\<close>

type_synonym 'v js_map = "(string, 'v) alist"

datatype job_status = RUNNING | SUCCESS | FAILED | CANCELLED | QUEUED

text \<open>
  \<^verbatim>\<open>interface ScanJob\<close>. Optional fields are options. Timestamps are the ISO strings
  the source stores. \<^verbatim>\<open>progress\<close> is a JavaScript number that the reducer only
  copies; the model takes it as an integer percentage.
\<close>

record ScanJob =
  requestId :: string
  scanId :: string
  imageId :: string
  imageName :: "string option"
  status :: job_status
  progress :: int
  step :: "string option"
  error :: "string option"
  startTime :: string
  lastUpdate :: string
  queuePosition :: "int option"
  estimatedWaitTime :: "int option"

text \<open>
  Modelled from the spec: the type \<^verbatim>\<open>ScanProgressEvent\<close>, imported from
  \<^verbatim>\<open>@/lib/scanner/types\<close>, which is not among the sources. A progress message is
  \<^verbatim>\<open>{type: "progress", requestId, scanId, status, progress, step?, error?, timestamp}\<close>;
  these are also the fields the reducer reads, and \<^verbatim>\<open>status\<close> is assigned to the
  \<^verbatim>\<open>status\<close> of a job.
\<close>

record ScanProgressEvent =
  ev_requestId :: string
  ev_scanId :: string
  ev_status :: job_status
  ev_progress :: int
  ev_step :: "string option"
  ev_error :: "string option"
  ev_timestamp :: string

record ScanningState =
  jobs :: "ScanJob js_map"
  queuedScans :: "ScanJob list"
  lastFetchTime :: int
  isPolling :: bool

text \<open>
  The payload of \<^verbatim>\<open>ADD_SCAN_JOB\<close> is a job without \<^verbatim>\<open>startTime\<close> and
  \<^verbatim>\<open>lastUpdate\<close>; the reducer's object spread overwrites both, so the model passes a
  whole job and overwrites the two fields.
\<close>

datatype ScanningAction =
    UPDATE_SCAN_PROGRESS ScanProgressEvent
  | ADD_SCAN_JOB ScanJob
  | REMOVE_SCAN_JOB string
  | SET_JOBS "ScanJob list"
  | SET_QUEUED_SCANS "ScanJob list"
  | CLEAR_COMPLETED_JOBS
  | AUTO_CLEANUP
  | SET_POLLING bool

text \<open>
  What the reducer reads from the JavaScript runtime: \<^verbatim>\<open>Date.now()\<close> in milliseconds,
  the \<open>n\<close>-th \<^verbatim>\<open>new Date().toISOString()\<close> of one call, and
  \<^verbatim>\<open>new Date(s).getTime()\<close>, which is \<open>None\<close> where JavaScript gives \<^verbatim>\<open>NaN\<close>.
\<close>

record runtime =
  Date_now :: int
  Date_toISOString :: "nat \<Rightarrow> string"
  Date_getTime :: "string \<Rightarrow> int option"

text \<open>\<^verbatim>\<open>currentTime - jobTime < limit\<close>; a comparison with \<^verbatim>\<open>NaN\<close> is false.\<close>

definition younger_than :: "runtime \<Rightarrow> ScanJob \<Rightarrow> int \<Rightarrow> bool" where
  "younger_than rt job limit =
     (case Date_getTime rt (lastUpdate job) of
        None \<Rightarrow> False
      | Some jobTime \<Rightarrow> Date_now rt - jobTime < limit)"

text \<open>The body of the \<^verbatim>\<open>forEach\<close> of \<^verbatim>\<open>AUTO_CLEANUP\<close>: does the entry go to \<^verbatim>\<open>cleanedJobs\<close>?\<close>

definition cleanup_keeps :: "runtime \<Rightarrow> ScanJob \<Rightarrow> bool" where
  "cleanup_keeps rt job =
     (if status job = RUNNING then True
      else if status job = SUCCESS then younger_than rt job 5000
      else if status job = FAILED \<or> status job = CANCELLED then younger_than rt job 30000
      else False)"

text \<open>\<^verbatim>\<open>m.forEach((v, k) => { if (keep(v)) out.set(k, v) })\<close> into a fresh map.\<close>

definition forEach_set :: "('v \<Rightarrow> bool) \<Rightarrow> 'v js_map \<Rightarrow> 'v js_map" where
  "forEach_set keep m =
     fold (\<lambda>(k, v) out. if keep v then DAList.update k v out else out)
       (DAList.impl_of m) DAList.empty"

definition updatedJob :: "ScanJob option \<Rightarrow> ScanProgressEvent \<Rightarrow> ScanJob" where
  "updatedJob existingJob event =
     \<lparr> requestId = ev_requestId event,
       scanId = ev_scanId event,
       imageId = (case existingJob of None \<Rightarrow> '''' | Some j \<Rightarrow> imageId j),
       imageName = (case existingJob of None \<Rightarrow> None | Some j \<Rightarrow> imageName j),
       status = ev_status event,
       progress = ev_progress event,
       step = ev_step event,
       error = ev_error event,
       startTime = (case existingJob of
                      None \<Rightarrow> ev_timestamp event
                    | Some j \<Rightarrow> if startTime j = '''' then ev_timestamp event else startTime j),
       lastUpdate = ev_timestamp event,
       queuePosition = None,
       estimatedWaitTime = None \<rparr>"

fun scanningReducer :: "runtime \<Rightarrow> ScanningState \<Rightarrow> ScanningAction \<Rightarrow> ScanningState" where
  "scanningReducer rt state (UPDATE_SCAN_PROGRESS event) =
     state\<lparr> jobs := DAList.update (ev_requestId event)
                       (updatedJob (DAList.lookup (jobs state) (ev_requestId event)) event)
                       (jobs state) \<rparr>"
| "scanningReducer rt state (ADD_SCAN_JOB payload) =
     (let newJob = payload\<lparr> startTime := Date_toISOString rt 0,
                             lastUpdate := Date_toISOString rt 1 \<rparr>
      in state\<lparr> jobs := DAList.update (requestId newJob) newJob (jobs state) \<rparr>)"
| "scanningReducer rt state (REMOVE_SCAN_JOB rid) =
     state\<lparr> jobs := DAList.delete rid (jobs state) \<rparr>"
| "scanningReducer rt state (SET_JOBS payload) =
     state\<lparr> jobs := fold (\<lambda>job jobsMap. DAList.update (requestId job) job jobsMap)
                       payload DAList.empty,
            lastFetchTime := Date_now rt \<rparr>"
| "scanningReducer rt state (SET_QUEUED_SCANS payload) = state\<lparr> queuedScans := payload \<rparr>"
| "scanningReducer rt state CLEAR_COMPLETED_JOBS =
     state\<lparr> jobs := forEach_set (\<lambda>job. status job = RUNNING) (jobs state) \<rparr>"
| "scanningReducer rt state AUTO_CLEANUP =
     state\<lparr> jobs := forEach_set (cleanup_keeps rt) (jobs state) \<rparr>"
| "scanningReducer rt state (SET_POLLING b) = state\<lparr> isPolling := b \<rparr>"

section \<open>Completion monitor (the effect of ScanningProvider on \<^verbatim>\<open>state.jobs\<close>)\<close>

text \<open>
  What one run of the effect does, in order: calls of the registered callback
  (\<^verbatim>\<open>onScanCompleteRef.current(job)\<close>), timers set by
  \<^verbatim>\<open>setTimeout(() => disconnect(requestId), ms)\<close>, and direct calls of
  \<^verbatim>\<open>disconnect(requestId)\<close>. \<open>'cb\<close> is the callback held by the ref.
\<close>

datatype 'cb monitor_effect =
    OnScanComplete 'cb ScanJob
  | SetTimeout_disconnect string int
  | Disconnect_now string

text \<open>The body of \<^verbatim>\<open>currentJobs.forEach((job, requestId) => ...)\<close>.\<close>

definition monitor_entry ::
  "'cb option \<Rightarrow> ScanJob js_map \<Rightarrow> string \<times> ScanJob \<Rightarrow> 'cb monitor_effect list" where
  "monitor_entry onScanCompleteRef previousJobs entry =
     (let rid = fst entry; job = snd entry;
          previousJob = DAList.lookup previousJobs rid
      in if status job = SUCCESS \<and> previousJob \<noteq> None
            \<and> map_option status previousJob \<noteq> Some SUCCESS
         then (case onScanCompleteRef of None \<Rightarrow> [] | Some cb \<Rightarrow> [OnScanComplete cb job])
              @ [SetTimeout_disconnect rid 2000]
         else if (status job = FAILED \<or> status job = CANCELLED) \<and> previousJob \<noteq> None
                 \<and> map_option status previousJob = Some RUNNING
         then [Disconnect_now rid]
         else [])"

text \<open>
  One run of the effect: the effects of every entry of \<^verbatim>\<open>state.jobs\<close> in map order,
  and the new content of \<^verbatim>\<open>previousJobsRef\<close>, a copy of the current map.
\<close>

definition completion_monitor ::
  "'cb option \<Rightarrow> ScanJob js_map \<Rightarrow> ScanJob js_map \<Rightarrow> 'cb monitor_effect list \<times> ScanJob js_map" where
  "completion_monitor onScanCompleteRef previousJobs currentJobs =
     (concat (map (monitor_entry onScanCompleteRef previousJobs) (DAList.impl_of currentJobs)),
      currentJobs)"

text \<open>
  The job an effect is about: the \<^verbatim>\<open>requestId\<close> of the job handed to the callback, or
  the \<^verbatim>\<open>requestId\<close> to disconnect.
\<close>

fun effect_requestId :: "'cb monitor_effect \<Rightarrow> string" where
  "effect_requestId (OnScanComplete cb job) = requestId job"
| "effect_requestId (SetTimeout_disconnect rid ms) = rid"
| "effect_requestId (Disconnect_now rid) = rid"

text \<open>
  Every reducer action stores a job under its own \<^verbatim>\<open>requestId\<close>
  (\<^verbatim>\<open>jobsMap.set(job.requestId, job)\<close>); this is that property of a job map.
\<close>

definition keyed_by_requestId :: "ScanJob js_map \<Rightarrow> bool" where
  "keyed_by_requestId m = list_all (\<lambda>(k, job). requestId job = k) (DAList.impl_of m)"

section \<open>Connection manager (class SSEManager)\<close>

text \<open>
  \<^verbatim>\<open>ConnectionStatus\<close>: \<^verbatim>\<open>'connecting' | 'connected' | 'disconnected' | 'error' |
  'reconnecting'\<close>.
\<close>

datatype ConnectionStatus = Connecting | Connected | Disconnected | Error | Reconnecting

text \<open>
  An option value has the type \<^verbatim>\<open>number | undefined\<close>: \<open>None\<close> is \<^verbatim>\<open>undefined\<close>, and a
  number is an integer (one that a double holds exactly). In the options that a caller
  passes (\<^verbatim>\<open>SSEConnectionOptions\<close>) every key is optional: the outer \<open>None\<close> is a key
  that is absent, \<open>Some None\<close> a key that is present with the value \<^verbatim>\<open>undefined\<close>.
  \<^verbatim>\<open>Required<SSEConnectionOptions>\<close> has every key, and still the values of that type.
\<close>

record SSEConnectionOptions =
  opt_maxRetries :: "int option option"
  opt_retryInterval :: "int option option"
  opt_heartbeatTimeout :: "int option option"

record RequiredOptions =
  maxRetries :: "int option"
  retryInterval :: "int option"
  heartbeatTimeout :: "int option"

definition default_options :: RequiredOptions where
  "default_options =
     \<lparr> maxRetries = Some 3, retryInterval = Some 1000, heartbeatTimeout = Some 30000 \<rparr>"

text \<open>
  \<^verbatim>\<open>{ ...this.options, ...options }\<close>: a key that \<^verbatim>\<open>options\<close> has overrides the default,
  also when its value is \<^verbatim>\<open>undefined\<close>.
\<close>

definition merge_options :: "RequiredOptions \<Rightarrow> SSEConnectionOptions option \<Rightarrow> RequiredOptions" where
  "merge_options base options =
     (case options of
        None \<Rightarrow> base
      | Some o' \<Rightarrow>
          \<lparr> maxRetries = (case opt_maxRetries o' of None \<Rightarrow> maxRetries base | Some v \<Rightarrow> v),
            retryInterval = (case opt_retryInterval o' of None \<Rightarrow> retryInterval base | Some v \<Rightarrow> v),
            heartbeatTimeout =
              (case opt_heartbeatTimeout o' of None \<Rightarrow> heartbeatTimeout base | Some v \<Rightarrow> v) \<rparr>)"

text \<open>
  \<^verbatim>\<open>ManagedConnection\<close>. The EventSource and the two timers are handles into the
  tables of the manager state below.
\<close>

record ManagedConnection =
  conn_requestId :: string
  eventSource :: "nat option"
  conn_status :: ConnectionStatus
  retryCount :: nat
  heartbeatTimer :: "nat option"
  reconnectTimer :: "nat option"
  lastActivity :: int

text \<open>
  An open EventSource with the variables its three handlers close over:
  \<^verbatim>\<open>requestId\<close>, \<^verbatim>\<open>options\<close> and the \<^verbatim>\<open>connection\<close> object (its address).
\<close>

record EventSource =
  es_requestId :: string
  es_options :: RequiredOptions
  es_connection :: nat

text \<open>The callback of a pending \<^verbatim>\<open>setTimeout\<close>, with the variables it closes over.\<close>

datatype timer_callback =
    HeartbeatTimeout string
  | Reconnect string RequiredOptions

text \<open>
  The values that the arithmetic of the manager yields: an integer, \<^verbatim>\<open>NaN\<close> or
  \<^verbatim>\<open>-Infinity\<close>. The delay handed to \<^verbatim>\<open>setTimeout\<close> is such a value, or \<^verbatim>\<open>undefined\<close>
  (\<open>None\<close>).
\<close>

datatype js_number = Number int | NaN | Minus_Infinity

record timer =
  callback :: timer_callback
  delay :: "js_number option"

fun timer_requestId :: "timer_callback \<Rightarrow> string" where
  "timer_requestId (HeartbeatTimeout rid) = rid"
| "timer_requestId (Reconnect rid options) = rid"

text \<open>A parsed field of an incoming message, as far as the validity check looks at it.\<close>

datatype js_value = Undefined | Null | Bool bool | Num int | Str string

fun truthy :: "js_value \<Rightarrow> bool" where
  "truthy Undefined = False"
| "truthy Null = False"
| "truthy (Bool b) = b"
| "truthy (Num n) = (n \<noteq> 0)"
| "truthy (Str s) = (s \<noteq> [])"

record progress_data =
  data_requestId :: js_value
  data_scanId :: js_value
  data_status :: js_value
  data_progress :: js_value

text \<open>
  \<^verbatim>\<open>event.data\<close> after \<^verbatim>\<open>JSON.parse\<close> and the \<^verbatim>\<open>switch (data.type)\<close>: text that does
  not parse (or parses to a value without fields), or an object by its \<^verbatim>\<open>type\<close>.
\<close>

datatype sse_message =
    Unparsable
  | Progress_message progress_data
  | Heartbeat_message
  | Connected_message
  | Unknown_message

text \<open>
  What the manager emits to its listeners (\<^verbatim>\<open>this.emit(...)\<close>), oldest first. The
  listeners are outside the manager and are taken not to throw (the ones that
  ScanningProvider registers log or dispatch); the \<^verbatim>\<open>'error'\<close> event, which an emitter
  without a listener for it turns into an exception, is the last action of its handler.
\<close>

datatype emitted =
    StatusChange string ConnectionStatus
  | Error_event string string
  | Progress_event string progress_data

text \<open>
  The manager with the part of the browser it owns: the connection objects (a store
  from addresses to objects; the \<^verbatim>\<open>connections\<close> map holds addresses, as closures keep
  a connection object alive after the map has dropped it), the EventSources that are not
  closed, the timers that are pending, and one counter that hands out fresh handles.
\<close>

record SSEManager =
  connections :: "nat js_map"
  objects :: "(nat, ManagedConnection) alist"
  open_sources :: "(nat \<times> EventSource) list"
  timers :: "(nat \<times> timer) list"
  next_handle :: nat
  emitted :: "emitted list"

text \<open>
  What a handler reads from the browser: \<^verbatim>\<open>Date.now()\<close> and whether
  \<^verbatim>\<open>new EventSource(url)\<close> returns (it throws where the constructor is missing).
  A thrown constructor is caught by \<^verbatim>\<open>establishConnection\<close>, which then calls
  \<^verbatim>\<open>handleConnectionError\<close> itself.
\<close>

record browser =
  now :: int
  EventSource_constructs :: bool

definition new_SSEManager :: SSEManager where
  "new_SSEManager =
     \<lparr> connections = DAList.empty, objects = DAList.empty, open_sources = [], timers = [],
       next_handle = 0, emitted = [] \<rparr>"

text \<open>\<^verbatim>\<open>this.connections.get(requestId)\<close>: the address and the object.\<close>

definition get_connection :: "SSEManager \<Rightarrow> string \<Rightarrow> (nat \<times> ManagedConnection) option" where
  "get_connection m rid =
     (case DAList.lookup (connections m) rid of
        None \<Rightarrow> None
      | Some a \<Rightarrow> (case DAList.lookup (objects m) a of None \<Rightarrow> None | Some c \<Rightarrow> Some (a, c)))"

text \<open>An assignment to fields of the object at address \<open>a\<close>.\<close>

definition assign :: "nat \<Rightarrow> (ManagedConnection \<Rightarrow> ManagedConnection) \<Rightarrow> SSEManager \<Rightarrow> SSEManager" where
  "assign a f m = m\<lparr> objects := DAList.map_entry a f (objects m) \<rparr>"

definition emit :: "emitted \<Rightarrow> SSEManager \<Rightarrow> SSEManager" where
  "emit e m = m\<lparr> emitted := emitted m @ [e] \<rparr>"

definition emitStatusChange :: "string \<Rightarrow> ConnectionStatus \<Rightarrow> SSEManager \<Rightarrow> SSEManager" where
  "emitStatusChange rid st m = emit (StatusChange rid st) m"

definition setTimeout ::
  "timer_callback \<Rightarrow> js_number option \<Rightarrow> SSEManager \<Rightarrow> nat \<times> SSEManager" where
  "setTimeout cb ms m =
     (next_handle m,
      m\<lparr> timers := timers m @ [(next_handle m, \<lparr> callback = cb, delay = ms \<rparr>)],
         next_handle := Suc (next_handle m) \<rparr>)"

definition clearTimeout :: "nat \<Rightarrow> SSEManager \<Rightarrow> SSEManager" where
  "clearTimeout h m = m\<lparr> timers := filter (\<lambda>p. fst p \<noteq> h) (timers m) \<rparr>"

text \<open>\<^verbatim>\<open>eventSource.close()\<close>: a closed source delivers nothing any more.\<close>

definition close_source :: "nat \<Rightarrow> SSEManager \<Rightarrow> SSEManager" where
  "close_source s m = m\<lparr> open_sources := filter (\<lambda>p. fst p \<noteq> s) (open_sources m) \<rparr>"

definition clearHeartbeatTimer :: "string \<Rightarrow> SSEManager \<Rightarrow> SSEManager" where
  "clearHeartbeatTimer rid m =
     (case get_connection m rid of
        None \<Rightarrow> m
      | Some (a, c) \<Rightarrow>
          (case heartbeatTimer c of
             None \<Rightarrow> m
           | Some h \<Rightarrow> assign a (\<lambda>c. c\<lparr> heartbeatTimer := None \<rparr>) (clearTimeout h m)))"

definition clearReconnectTimer :: "string \<Rightarrow> SSEManager \<Rightarrow> SSEManager" where
  "clearReconnectTimer rid m =
     (case get_connection m rid of
        None \<Rightarrow> m
      | Some (a, c) \<Rightarrow>
          (case reconnectTimer c of
             None \<Rightarrow> m
           | Some h \<Rightarrow> assign a (\<lambda>c. c\<lparr> reconnectTimer := None \<rparr>) (clearTimeout h m)))"

definition startHeartbeatTimer :: "string \<Rightarrow> int option \<Rightarrow> SSEManager \<Rightarrow> SSEManager" where
  "startHeartbeatTimer rid timeout m =
     (case get_connection m rid of
        None \<Rightarrow> m
      | Some (a, c) \<Rightarrow>
          (let m1 = clearHeartbeatTimer rid m;
               (h, m2) = setTimeout (HeartbeatTimeout rid) (map_option Number timeout) m1
           in assign a (\<lambda>c. c\<lparr> heartbeatTimer := Some h \<rparr>) m2))"

definition resetHeartbeatTimer :: "string \<Rightarrow> int option \<Rightarrow> SSEManager \<Rightarrow> SSEManager" where
  "resetHeartbeatTimer rid timeout m = startHeartbeatTimer rid timeout (clearHeartbeatTimer rid m)"

text \<open>
  \<^verbatim>\<open>Math.min(options.retryInterval * Math.pow(2, connection.retryCount - 1), 30000)\<close>,
  read after the increment of \<^verbatim>\<open>retryCount\<close>, so with \<open>rc\<close> at least 1. The code
  computes in doubles: \<^verbatim>\<open>Math.pow(2, n)\<close> is exact up to \<open>n = 1023\<close> and \<^verbatim>\<open>Infinity\<close>
  from 1024 on, and a product with a power of two is exact unless it leaves the range of
  the doubles (its size reaches \<open>2 ^ 1024\<close>). With a positive interval the minimum is
  therefore the one of the exact product and 30000; with the interval 0 the product is
  0, or \<^verbatim>\<open>NaN\<close> once the power is infinite; with a negative interval it is the exact
  product, or \<^verbatim>\<open>-Infinity\<close>; with the interval \<^verbatim>\<open>undefined\<close> it is \<^verbatim>\<open>NaN\<close>.
\<close>

definition reconnect_delay :: "RequiredOptions \<Rightarrow> nat \<Rightarrow> js_number" where
  "reconnect_delay options rc =
     (case retryInterval options of
        None \<Rightarrow> NaN
      | Some x \<Rightarrow>
          if 0 < x then Number (min (x * 2 ^ (rc - 1)) 30000)
          else if x = 0 then (if rc - 1 < 1024 then Number 0 else NaN)
          else if rc - 1 < 1024 \<and> - x * 2 ^ (rc - 1) < 2 ^ 1024
               then Number (x * 2 ^ (rc - 1))
               else Minus_Infinity)"

text \<open>
  \<^verbatim>\<open>connection.retryCount < options.maxRetries\<close>; a comparison with \<^verbatim>\<open>undefined\<close> is
  false.
\<close>

definition may_retry :: "RequiredOptions \<Rightarrow> nat \<Rightarrow> bool" where
  "may_retry options rc =
     (case maxRetries options of None \<Rightarrow> False | Some n \<Rightarrow> int rc < n)"

definition handleConnectionError :: "string \<Rightarrow> RequiredOptions \<Rightarrow> SSEManager \<Rightarrow> SSEManager" where
  "handleConnectionError rid options m =
     (case get_connection m rid of
        None \<Rightarrow> m
      | Some (a, c) \<Rightarrow>
          (let m1 = (case eventSource c of
                       None \<Rightarrow> m
                     | Some s \<Rightarrow> assign a (\<lambda>c. c\<lparr> eventSource := None \<rparr>) (close_source s m));
               m2 = clearHeartbeatTimer rid m1;
               m3 = clearReconnectTimer rid m2
           in if may_retry options (retryCount c)
              then (let m4 = assign a (\<lambda>c. c\<lparr> retryCount := Suc (retryCount c),
                                               conn_status := Reconnecting \<rparr>) m3;
                        m5 = emitStatusChange rid Reconnecting m4;
                        (h, m6) = setTimeout (Reconnect rid options)
                                    (Some (reconnect_delay options (Suc (retryCount c)))) m5
                    in assign a (\<lambda>c. c\<lparr> reconnectTimer := Some h \<rparr>) m6)
              else emit (Error_event rid ''Max reconnection attempts reached'')
                     (emitStatusChange rid Error
                        (assign a (\<lambda>c. c\<lparr> conn_status := Error \<rparr>) m3))))"

definition establishConnection ::
  "browser \<Rightarrow> string \<Rightarrow> RequiredOptions \<Rightarrow> SSEManager \<Rightarrow> SSEManager" where
  "establishConnection br rid options m =
     (case get_connection m rid of
        None \<Rightarrow> m
      | Some (a, c) \<Rightarrow>
          if EventSource_constructs br
          then (let s = next_handle m;
                    m1 = m\<lparr> open_sources := open_sources m @
                                [(s, \<lparr> es_requestId = rid, es_options = options,
                                      es_connection = a \<rparr>)],
                            next_handle := Suc s \<rparr>;
                    m2 = assign a (\<lambda>c. c\<lparr> eventSource := Some s,
                                           conn_status := Connecting \<rparr>) m1
                in emitStatusChange rid Connecting m2)
          else handleConnectionError rid options m)"

definition connect ::
  "browser \<Rightarrow> string \<Rightarrow> SSEConnectionOptions option \<Rightarrow> SSEManager \<Rightarrow> bool \<times> SSEManager" where
  "connect br rid options m =
     (if (case get_connection m rid of
            None \<Rightarrow> False
          | Some (a, existing) \<Rightarrow> conn_status existing = Connected)
      then (True, m)
      else (let connOptions = merge_options default_options options;
                a = next_handle m;
                connection = \<lparr> conn_requestId = rid, eventSource = None,
                               conn_status = Connecting, retryCount = 0,
                               heartbeatTimer = None, reconnectTimer = None,
                               lastActivity = now br \<rparr>;
                m1 = m\<lparr> connections := DAList.update rid a (connections m),
                        objects := DAList.update a connection (objects m),
                        next_handle := Suc a \<rparr>
            in (True, establishConnection br rid connOptions m1)))"

definition isValidProgressEvent :: "progress_data \<Rightarrow> bool" where
  "isValidProgressEvent data =
     (truthy (data_requestId data) \<and> truthy (data_scanId data) \<and> truthy (data_status data)
      \<and> (case data_progress data of Num n \<Rightarrow> True | _ \<Rightarrow> False))"

text \<open>The three handlers that \<^verbatim>\<open>establishConnection\<close> attaches to a source.\<close>

definition onopen :: "browser \<Rightarrow> EventSource \<Rightarrow> SSEManager \<Rightarrow> SSEManager" where
  "onopen br src m =
     (let m1 = assign (es_connection src)
                 (\<lambda>c. c\<lparr> conn_status := Connected, retryCount := 0, lastActivity := now br \<rparr>) m;
          m2 = emitStatusChange (es_requestId src) Connected m1
      in startHeartbeatTimer (es_requestId src) (heartbeatTimeout (es_options src)) m2)"

definition onmessage :: "browser \<Rightarrow> EventSource \<Rightarrow> sse_message \<Rightarrow> SSEManager \<Rightarrow> SSEManager" where
  "onmessage br src msg m =
     (let m1 = assign (es_connection src) (\<lambda>c. c\<lparr> lastActivity := now br \<rparr>) m
      in case msg of
           Unparsable \<Rightarrow> m1
         | Progress_message data \<Rightarrow>
             if isValidProgressEvent data
             then emit (Progress_event (es_requestId src) data) m1
             else m1
         | Heartbeat_message \<Rightarrow>
             resetHeartbeatTimer (es_requestId src) (heartbeatTimeout (es_options src)) m1
         | Connected_message \<Rightarrow> m1
         | Unknown_message \<Rightarrow> m1)"

definition onerror :: "EventSource \<Rightarrow> SSEManager \<Rightarrow> SSEManager" where
  "onerror src m = handleConnectionError (es_requestId src) (es_options src) m"

definition disconnect :: "string \<Rightarrow> SSEManager \<Rightarrow> SSEManager" where
  "disconnect rid m =
     (case get_connection m rid of
        None \<Rightarrow> m
      | Some (a, c) \<Rightarrow>
          (let m1 = (case eventSource c of
                       None \<Rightarrow> m
                     | Some s \<Rightarrow> assign a (\<lambda>c. c\<lparr> eventSource := None \<rparr>) (close_source s m));
               m2 = clearHeartbeatTimer rid m1;
               m3 = clearReconnectTimer rid m2;
               m4 = m3\<lparr> connections := DAList.delete rid (connections m3) \<rparr>
           in emitStatusChange rid Disconnected m4))"

definition disconnectAll :: "SSEManager \<Rightarrow> SSEManager" where
  "disconnectAll m = fold disconnect (map fst (DAList.impl_of (connections m))) m"

definition getConnectionStatus :: "SSEManager \<Rightarrow> string \<Rightarrow> ConnectionStatus option" where
  "getConnectionStatus m rid =
     (case get_connection m rid of None \<Rightarrow> None | Some (a, c) \<Rightarrow> Some (conn_status c))"

definition getActiveConnections :: "SSEManager \<Rightarrow> string list" where
  "getActiveConnections m =
     filter (\<lambda>rid. case get_connection m rid of
                     None \<Rightarrow> False
                   | Some (a, conn) \<Rightarrow> conn_status conn = Connected)
       (map fst (DAList.impl_of (connections m)))"

text \<open>The callback of the interval set by \<^verbatim>\<open>startCleanupTimer\<close>.\<close>

definition cleanup_sweep :: "browser \<Rightarrow> SSEManager \<Rightarrow> SSEManager" where
  "cleanup_sweep br m =
     fold (\<lambda>rid m'. case get_connection m' rid of
                      None \<Rightarrow> m'
                    | Some (a, c) \<Rightarrow>
                        if conn_status c = Error
                           \<or> (conn_status c = Disconnected
                               \<and> now br - lastActivity c > 5 * 60 * 1000)
                        then disconnect rid m'
                        else m')
       (map fst (DAList.impl_of (connections m))) m"

text \<open>
  What the browser can deliver to the manager on its own: an event of an EventSource
  (only while the source is open), the expiry of a timer (only while it is pending; it
  is then no longer pending), and a tick of the cleanup interval.
\<close>

datatype browser_event =
    ES_open nat
  | ES_error nat
  | ES_message nat sse_message
  | Timer_fires nat
  | Cleanup_tick

fun deliver :: "browser \<Rightarrow> browser_event \<Rightarrow> SSEManager \<Rightarrow> SSEManager" where
  "deliver br (ES_open s) m =
     (case map_of (open_sources m) s of None \<Rightarrow> m | Some src \<Rightarrow> onopen br src m)"
| "deliver br (ES_error s) m =
     (case map_of (open_sources m) s of None \<Rightarrow> m | Some src \<Rightarrow> onerror src m)"
| "deliver br (ES_message s msg) m =
     (case map_of (open_sources m) s of None \<Rightarrow> m | Some src \<Rightarrow> onmessage br src msg m)"
| "deliver br (Timer_fires h) m =
     (case map_of (timers m) h of
        None \<Rightarrow> m
      | Some t \<Rightarrow>
          (let m1 = clearTimeout h m
           in case callback t of
                HeartbeatTimeout rid \<Rightarrow> handleConnectionError rid default_options m1
              | Reconnect rid options \<Rightarrow> establishConnection br rid options m1))"
| "deliver br Cleanup_tick m = cleanup_sweep br m"

subsection \<open>Runs of consecutive transport failures\<close>

text \<open>
  A transport failure of the connection of \<open>rid\<close>: its EventSource fires
  \<^verbatim>\<open>onerror\<close>. The reconnect falling due: its pending reconnect timer expires. In a
  run of \<open>k\<close> consecutive failures with no successful open, the attempt made by
  \<^verbatim>\<open>connect\<close> fails first, and for every further failure the pending reconnect falls
  due and the attempt it makes fails. Where the constructor throws, an attempt has
  failed inside \<^verbatim>\<open>establishConnection\<close> already and there is no EventSource left to
  fire: \<open>transport_fails\<close> then changes nothing.
\<close>

definition transport_fails :: "browser \<Rightarrow> string \<Rightarrow> SSEManager \<Rightarrow> SSEManager" where
  "transport_fails br rid m =
     (case get_connection m rid of
        None \<Rightarrow> m
      | Some (a, c) \<Rightarrow>
          (case eventSource c of None \<Rightarrow> m | Some s \<Rightarrow> deliver br (ES_error s) m))"

definition reconnect_due :: "browser \<Rightarrow> string \<Rightarrow> SSEManager \<Rightarrow> SSEManager" where
  "reconnect_due br rid m =
     (case get_connection m rid of
        None \<Rightarrow> m
      | Some (a, c) \<Rightarrow>
          (case reconnectTimer c of None \<Rightarrow> m | Some t \<Rightarrow> deliver br (Timer_fires t) m))"

fun failures :: "browser \<Rightarrow> string \<Rightarrow> nat \<Rightarrow> SSEManager \<Rightarrow> SSEManager" where
  "failures br rid 0 m = m"
| "failures br rid (Suc 0) m = transport_fails br rid m"
| "failures br rid (Suc (Suc k)) m =
     transport_fails br rid (reconnect_due br rid (failures br rid (Suc k) m))"

text \<open>
  The number of retries that \<^verbatim>\<open>retryCount < maxRetries\<close> allows, \<^verbatim>\<open>retryCount\<close> starting
  at 0: \<^verbatim>\<open>maxRetries\<close>, or none where that is negative or \<^verbatim>\<open>undefined\<close>.
\<close>

definition retries :: "RequiredOptions \<Rightarrow> nat" where
  "retries options = (case maxRetries options of None \<Rightarrow> 0 | Some n \<Rightarrow> nat n)"

text \<open>The pending timers and the open EventSources that belong to \<open>rid\<close>.\<close>

definition timers_for :: "SSEManager \<Rightarrow> string \<Rightarrow> (nat \<times> timer) list" where
  "timers_for m rid = filter (\<lambda>p. timer_requestId (callback (snd p)) = rid) (timers m)"

definition sources_for :: "SSEManager \<Rightarrow> string \<Rightarrow> (nat \<times> EventSource) list" where
  "sources_for m rid = filter (\<lambda>p. es_requestId (snd p) = rid) (open_sources m)"

text \<open>
  Handles are handed out in increasing order, so the handles in use are distinct and
  below the next one.
\<close>

definition handles_ok :: "nat \<Rightarrow> (nat \<times> 'a) list \<Rightarrow> bool" where
  "handles_ok n xs = (list_all (\<lambda>p. fst p < n) xs \<and> distinct (map fst xs))"

definition fresh_handles :: "SSEManager \<Rightarrow> bool" where
  "fresh_handles m =
     (handles_ok (next_handle m) (timers m) \<and> handles_ok (next_handle m) (open_sources m))"

text \<open>
  The states a run goes through: an attempt of \<open>rid\<close> is under way after \<open>k\<close> failures
  (one open EventSource, no pending timer); retry \<open>k\<close> is scheduled (no EventSource, one
  pending reconnect timer with the delay of retry \<open>k\<close>); the manager has given up.
\<close>

definition attempt_in_flight :: "SSEManager \<Rightarrow> string \<Rightarrow> RequiredOptions \<Rightarrow> nat \<Rightarrow> bool" where
  "attempt_in_flight m rid opts k =
     (case get_connection m rid of
        None \<Rightarrow> False
      | Some (a, c) \<Rightarrow>
          retryCount c = k \<and> heartbeatTimer c = None \<and>
          (case reconnectTimer c of None \<Rightarrow> True | Some t \<Rightarrow> map_of (timers m) t = None) \<and>
          (case eventSource c of
             None \<Rightarrow> False
           | Some s \<Rightarrow>
               sources_for m rid =
                 [(s, \<lparr> es_requestId = rid, es_options = opts, es_connection = a \<rparr>)]) \<and>
          timers_for m rid = [] \<and> fresh_handles m)"

definition retry_scheduled :: "SSEManager \<Rightarrow> string \<Rightarrow> RequiredOptions \<Rightarrow> nat \<Rightarrow> bool" where
  "retry_scheduled m rid opts k =
     (case get_connection m rid of
        None \<Rightarrow> False
      | Some (a, c) \<Rightarrow>
          retryCount c = k \<and> conn_status c = Reconnecting \<and> eventSource c = None \<and>
          heartbeatTimer c = None \<and>
          (case reconnectTimer c of
             None \<Rightarrow> False
           | Some t \<Rightarrow>
               timers_for m rid =
                 [(t, \<lparr> callback = Reconnect rid opts,
                        delay = Some (reconnect_delay opts k) \<rparr>)]) \<and>
          sources_for m rid = [] \<and> fresh_handles m)"

definition gave_up :: "SSEManager \<Rightarrow> string \<Rightarrow> bool" where
  "gave_up m rid =
     (case get_connection m rid of
        None \<Rightarrow> False
      | Some (a, c) \<Rightarrow>
          conn_status c = Error \<and> eventSource c = None \<and> heartbeatTimer c = None \<and>
          reconnectTimer c = None \<and> timers_for m rid = [] \<and> sources_for m rid = [] \<and>
          fresh_handles m)"

text \<open>Nothing of the browser can call the manager back on behalf of \<open>rid\<close>.\<close>

definition quiet :: "SSEManager \<Rightarrow> string \<Rightarrow> bool" where
  "quiet m rid = (timers_for m rid = [] \<and> sources_for m rid = [])"

section \<open>Polling (\<^verbatim>\<open>refreshJobs\<close> of ScanningProvider)\<close>

text \<open>
  What \<^verbatim>\<open>refreshJobs\<close> works on: the reducer state and the connection manager that
  the hook \<^verbatim>\<open>useSSE\<close> hands out (\<^verbatim>\<open>managerRef.current\<close>, set when the provider has
  mounted).
\<close>

record provider =
  prov_state :: ScanningState
  prov_manager :: SSEManager

text \<open>
  \<^verbatim>\<open>await fetch('/api/scans/jobs')\<close> and \<^verbatim>\<open>await response.json()\<close>: a rejection of
  either, a response that is not \<^verbatim>\<open>ok\<close>, or the parsed \<^verbatim>\<open>data.jobs || []\<close> and
  \<^verbatim>\<open>data.queuedScans || []\<close>. A job of the response with no \<^verbatim>\<open>startTime\<close> has the
  empty string there (both are falsy).
\<close>

datatype fetch_result =
    Fetch_rejects
  | Response_not_ok
  | Response_ok "ScanJob list" "ScanJob list"

text \<open>
  The two \<^verbatim>\<open>map\<close> calls. \<open>n\<close> counts the calls of \<^verbatim>\<open>new Date().toISOString()\<close> made
  so far; \<^verbatim>\<open>job.startTime || ...\<close> makes one only where \<^verbatim>\<open>startTime\<close> is falsy.
\<close>

fun stamp_jobs :: "runtime \<Rightarrow> nat \<Rightarrow> ScanJob list \<Rightarrow> ScanJob list \<times> nat" where
  "stamp_jobs rt n [] = ([], n)"
| "stamp_jobs rt n (job # rest) =
     (let n1 = (if startTime job = [] then Suc n else n);
          job' = job\<lparr> startTime := (if startTime job = [] then Date_toISOString rt n
                                       else startTime job),
                      lastUpdate := Date_toISOString rt n1 \<rparr>;
          (rest', n2) = stamp_jobs rt (Suc n1) rest
      in (job' # rest', n2))"

fun stamp_queuedScans :: "runtime \<Rightarrow> nat \<Rightarrow> ScanJob list \<Rightarrow> ScanJob list \<times> nat" where
  "stamp_queuedScans rt n [] = ([], n)"
| "stamp_queuedScans rt n (scan # rest) =
     (let scan' = scan\<lparr> status := QUEUED, progress := 0,
                        startTime := Date_toISOString rt n,
                        lastUpdate := Date_toISOString rt (Suc n) \<rparr>;
          (rest', n') = stamp_queuedScans rt (Suc (Suc n)) rest
      in (scan' # rest', n'))"

text \<open>
  \<^verbatim>\<open>refreshJobs\<close>. The two dispatches reach the reducer; the calls of \<^verbatim>\<open>subscribeTo\<close>
  (\<^verbatim>\<open>connect(requestId)\<close>, no options) and of \<^verbatim>\<open>disconnect\<close> reach the manager at
  once, before the completion monitor sees the new job map.
\<close>

definition refreshJobs :: "runtime \<Rightarrow> browser \<Rightarrow> fetch_result \<Rightarrow> provider \<Rightarrow> provider" where
  "refreshJobs rt br fetched p =
     (case fetched of
        Fetch_rejects \<Rightarrow> p
      | Response_not_ok \<Rightarrow> p
      | Response_ok data_jobs data_queuedScans \<Rightarrow>
          (let (jobs', n) = stamp_jobs rt 0 data_jobs;
               (queuedScans', n') = stamp_queuedScans rt n data_queuedScans;
               state1 = scanningReducer rt (prov_state p) (SET_JOBS jobs');
               state2 = scanningReducer rt state1 (SET_QUEUED_SCANS queuedScans');
               runningJobs = filter (\<lambda>job. status job = RUNNING) jobs';
               activeConnections = getActiveConnections (prov_manager p);
               m1 = fold (\<lambda>job m. if requestId job \<in> set activeConnections then m
                                   else snd (connect br (requestId job) None m))
                      runningJobs (prov_manager p);
               m2 = fold (\<lambda>rid m. case find (\<lambda>j. requestId j = rid) jobs' of
                                     None \<Rightarrow> disconnect rid m
                                   | Some job \<Rightarrow>
                                       if status job \<noteq> RUNNING then disconnect rid m else m)
                      activeConnections m1
           in \<lparr> prov_state = state2, prov_manager = m2 \<rparr>))"

section \<open>Batch execution pipeline (app/api/scheduled-scans/[id]/execute/route.ts)\<close>

text \<open>
  The modes \<^verbatim>\<open>'SPECIFIC'\<close>, \<^verbatim>\<open>'PATTERN'\<close>, \<^verbatim>\<open>'ALL'\<close> (a reserved word of the
  logic, hence \<open>ALL_mode\<close>) and \<^verbatim>\<open>'REPOSITORY'\<close>.
\<close>

datatype ImageSelectionMode = SPECIFIC | PATTERN | ALL_mode | REPOSITORY

record Image =
  image_id :: string
  image_name :: string
  image_tag :: string
  image_registry :: string

text \<open>
  The Prisma schema is not among the sources; the rows below have the columns that
  \<^verbatim>\<open>route.ts\<close> reads or writes. First the row that
  \<^verbatim>\<open>prisma.scheduledScan.findUnique\<close> returns, with \<^verbatim>\<open>selectedImages\<close> already mapped
  to their \<^verbatim>\<open>image\<close>.
\<close>

record ScheduledScan =
  enabled :: bool
  imageSelectionMode :: ImageSelectionMode
  imagePattern :: "string option"
  selectedImages :: "Image list"

datatype HistoryStatus = H_PENDING | H_RUNNING | H_COMPLETED | H_PARTIAL | H_FAILED

text \<open>
  A row of \<^verbatim>\<open>scheduledScanHistory\<close>. A column that no call of this file has written
  yet is \<open>None\<close>, whatever default the schema gives it.
\<close>

record ScheduledScanHistory =
  history_id :: string
  scheduledScanId :: string
  executionId :: string
  totalImages :: nat
  history_status :: HistoryStatus
  triggerSource :: string
  triggeredBy :: string
  scannedImages :: "nat option"
  failedImages :: "nat option"
  errorMessage :: "string option"
  completedAt :: "int option"

datatype response_body =
    Error_body string
  | Started_body string string nat string string

record http_response =
  status_code :: nat
  body :: response_body

text \<open>
  What the request handler gets from Prisma and the runtime. A rejected promise or a
  thrown exception is \<open>Inl\<close> of its message; \<^verbatim>\<open>new RegExp(p)\<close> is \<open>None\<close> where it
  throws, and else the function \<^verbatim>\<open>regex.test\<close>.
\<close>

record POST_env =
  scheduledScan_findUnique :: "string \<Rightarrow> string + ScheduledScan option"
  image_findMany :: "string + Image list"
  new_RegExp :: "string \<Rightarrow> (string \<Rightarrow> bool) option"
  randomUUID :: string
  scheduledScanHistory_create :: "string + string"
  scheduledScan_update :: "string + unit"

text \<open>
  What the handler has done when it returns: its response, the history row it has
  persisted, and the call \<^verbatim>\<open>startScanExecution(history.id, imagesToScan)\<close> it has made.
\<close>

record POST_result =
  response :: http_response
  persisted :: "ScheduledScanHistory option"
  started :: "(string \<times> Image list) option"

definition json_error :: "string \<Rightarrow> nat \<Rightarrow> http_response" where
  "json_error msg code = \<lparr> status_code = code, body = Error_body msg \<rparr>"

text \<open>A number in a template string.\<close>

fun decimal :: "nat \<Rightarrow> string" where
  "decimal n =
     (if n < 10 then [char_of (48 + n)] else decimal (n div 10) @ [char_of (48 + n mod 10)])"

text \<open>
  The \<^verbatim>\<open>switch (scheduledScan.imageSelectionMode)\<close>: an exception (\<open>Inl\<close>), a response
  returned from inside the switch, or the value of \<^verbatim>\<open>imagesToScan\<close> after it.
\<close>

definition imagesToScan :: "POST_env \<Rightarrow> ScheduledScan \<Rightarrow> string + (http_response + Image list)" where
  "imagesToScan env scheduledScan =
     (case imageSelectionMode scheduledScan of
        SPECIFIC \<Rightarrow> Inr (Inr (selectedImages scheduledScan))
      | PATTERN \<Rightarrow>
          (case imagePattern scheduledScan of
             None \<Rightarrow> Inr (Inr [])
           | Some pattern \<Rightarrow>
               if pattern = [] then Inr (Inr [])
               else (case new_RegExp env pattern of
                       None \<Rightarrow> Inl ''Invalid regular expression''
                     | Some test \<Rightarrow>
                         (case image_findMany env of
                            Inl e \<Rightarrow> Inl e
                          | Inr allImages \<Rightarrow>
                              Inr (Inr (filter
                                (\<lambda>img. test (image_name img @ '':'' @ image_tag img))
                                allImages)))))
      | ALL_mode \<Rightarrow>
          (case image_findMany env of
             Inl e \<Rightarrow> Inl e
           | Inr allImages \<Rightarrow> Inr (Inr allImages))
      | REPOSITORY \<Rightarrow>
          Inr (Inl (json_error ''Repository-based selection not yet implemented'' 501)))"

definition POST :: "POST_env \<Rightarrow> string \<Rightarrow> POST_result" where
  "POST env params_id =
     (let failed = json_error ''Failed to execute scheduled scan'' 500;
          reject = (\<lambda>r. \<lparr> response = r, persisted = None, started = None \<rparr>)
      in case scheduledScan_findUnique env params_id of
           Inl e \<Rightarrow> reject failed
         | Inr None \<Rightarrow> reject (json_error ''Scheduled scan not found'' 404)
         | Inr (Some scheduledScan) \<Rightarrow>
             if \<not> enabled scheduledScan
             then reject (json_error ''Scheduled scan is disabled'' 400)
             else (case imagesToScan env scheduledScan of
                     Inl e \<Rightarrow> reject failed
                   | Inr (Inl r) \<Rightarrow> reject r
                   | Inr (Inr images) \<Rightarrow>
                       if length images = 0
                       then reject (json_error ''No images found to scan'' 400)
                       else (case scheduledScanHistory_create env of
                               Inl e \<Rightarrow> reject failed
                             | Inr hid \<Rightarrow>
                                 (let history =
                                        \<lparr> history_id = hid,
                                          scheduledScanId = params_id,
                                          executionId = randomUUID env,
                                          totalImages = length images,
                                          history_status = H_PENDING,
                                          triggerSource = ''MANUAL'',
                                          triggeredBy = ''API'',
                                          scannedImages = None,
                                          failedImages = None,
                                          errorMessage = None,
                                          completedAt = None \<rparr>;
                                      accepted =
                                        \<lparr> status_code = 202,
                                          body = Started_body (randomUUID env) hid
                                            (length images) ''STARTED''
                                            (''Scheduled scan execution started for '' @
                                             decimal (length images) @ '' images'') \<rparr>
                                  in \<lparr> response = (case scheduledScan_update env of
                                                     Inl e \<Rightarrow> failed
                                                   | Inr u \<Rightarrow> accepted),
                                       persisted = Some history,
                                       started = Some (hid, images) \<rparr>))))"

subsection \<open>The background task\<close>

record Scan =
  scan_requestId :: string
  scan_imageId :: string
  scan_startedAt :: int
  scan_status :: string
  scan_tag :: string

record ScheduledScanResult =
  scheduledScanHistoryId :: string
  result_scanId :: nat
  result_imageId :: string
  result_imageName :: string
  result_imageTag :: string
  result_status :: string
  result_startedAt :: int
  result_completedAt :: "int option"
  vulnerabilityCritical :: "int option"
  vulnerabilityHigh :: "int option"
  vulnerabilityMedium :: "int option"
  vulnerabilityLow :: "int option"

text \<open>
  The tables the task writes: the history row of this execution, the \<^verbatim>\<open>scan\<close> rows and
  the \<^verbatim>\<open>scheduledScanResult\<close> rows it has created (a row's id is its position), and
  the number of Prisma calls the task has made so far.
\<close>

record store =
  history :: ScheduledScanHistory
  scans :: "Scan list"
  results :: "ScheduledScanResult list"
  calls :: nat

text \<open>
  What the task gets from outside, by the number of Prisma calls made before: whether
  the next call is rejected (and with which message), the value of \<^verbatim>\<open>new Date()\<close>,
  of \<^verbatim>\<open>randomUUID()\<close>, and of \<^verbatim>\<open>Math.floor(Math.random() * k)\<close>.
\<close>

record task_env =
  rejects :: "nat \<Rightarrow> string option"
  new_Date :: "nat \<Rightarrow> int"
  task_randomUUID :: "nat \<Rightarrow> string"
  random_below :: "nat \<Rightarrow> int \<Rightarrow> int"

text \<open>One awaited Prisma call: the exception it raises, if any, and the tables after it.\<close>

definition prisma :: "task_env \<Rightarrow> (store \<Rightarrow> store) \<Rightarrow> store \<Rightarrow> string option \<times> store" where
  "prisma env write d =
     (case rejects env (calls d) of
        Some msg \<Rightarrow> (Some msg, d\<lparr> calls := Suc (calls d) \<rparr>)
      | None \<Rightarrow> (None, (write d)\<lparr> calls := Suc (calls d) \<rparr>))"

text \<open>
  \<^verbatim>\<open>prisma.scheduledScanHistory.update({ where: { id: historyId }, data })\<close>: Prisma
  rejects an update of a row that does not exist.
\<close>

definition scheduledScanHistory_update ::
  "task_env \<Rightarrow> string \<Rightarrow> (ScheduledScanHistory \<Rightarrow> ScheduledScanHistory) \<Rightarrow> store
     \<Rightarrow> string option \<times> store" where
  "scheduledScanHistory_update env historyId data d =
     (if history_id (history d) = historyId
      then prisma env (\<lambda>d. d\<lparr> history := data (history d) \<rparr>) d
      else (Some ''Record to update not found'', d\<lparr> calls := Suc (calls d) \<rparr>))"

text \<open>
  The \<^verbatim>\<open>try\<close> block of the loop body: the exception that ends it, if any, and the value
  of \<^verbatim>\<open>scannedCount\<close> at that point.
\<close>

definition try_block ::
  "task_env \<Rightarrow> string \<Rightarrow> Image \<Rightarrow> nat \<Rightarrow> nat \<Rightarrow> store \<Rightarrow> (string option \<times> nat) \<times> store" where
  "try_block env historyId img scannedCount failedCount d =
     (let requestId = task_randomUUID env (calls d);
          scan = length (scans d);
          (e1, d1) = prisma env
            (\<lambda>d'. d'\<lparr> scans := scans d' @
               [\<lparr> scan_requestId = requestId, scan_imageId = image_id img,
                  scan_startedAt = new_Date env (calls d), scan_status = ''PENDING'',
                  scan_tag = image_tag img \<rparr>] \<rparr>) d
      in case e1 of
           Some err \<Rightarrow> ((Some err, scannedCount), d1)
         | None \<Rightarrow>
             (let result = length (results d1);
                  (e2, d2) = prisma env
                    (\<lambda>d'. d'\<lparr> results := results d' @
                       [\<lparr> scheduledScanHistoryId = historyId, result_scanId = scan,
                          result_imageId = image_id img, result_imageName = image_name img,
                          result_imageTag = image_tag img, result_status = ''PENDING'',
                          result_startedAt = new_Date env (calls d1),
                          result_completedAt = None, vulnerabilityCritical = None,
                          vulnerabilityHigh = None, vulnerabilityMedium = None,
                          vulnerabilityLow = None \<rparr>] \<rparr>) d1
              in case e2 of
                   Some err \<Rightarrow> ((Some err, scannedCount), d2)
                 | None \<Rightarrow>
                     (let (e3, d3) = prisma env
                            (\<lambda>d'. d'\<lparr> results := (results d')[result :=
                               (results d' ! result)
                                 \<lparr> result_status := ''SUCCESS'',
                                   result_completedAt := Some (new_Date env (calls d2)),
                                   vulnerabilityCritical := Some (random_below env (calls d2) 5),
                                   vulnerabilityHigh := Some (random_below env (calls d2) 10),
                                   vulnerabilityMedium := Some (random_below env (calls d2) 20),
                                   vulnerabilityLow := Some (random_below env (calls d2) 30) \<rparr>] \<rparr>)
                            d2
                      in case e3 of
                           Some err \<Rightarrow> ((Some err, scannedCount), d3)
                         | None \<Rightarrow>
                             (let scannedCount' = scannedCount + 1;
                                  (e4, d4) = scheduledScanHistory_update env historyId
                                    (\<lambda>h. h\<lparr> scannedImages := Some scannedCount',
                                            failedImages := Some failedCount \<rparr>) d3
                              in ((e4, scannedCount'), d4)))))"

text \<open>
  The loop body with its \<^verbatim>\<open>catch\<close>: the new \<^verbatim>\<open>(scannedCount, failedCount)\<close>, or the
  exception that leaves the loop (the update inside \<^verbatim>\<open>catch\<close> was rejected).
\<close>

definition loop_body ::
  "task_env \<Rightarrow> string \<Rightarrow> Image \<Rightarrow> nat \<times> nat \<Rightarrow> store \<Rightarrow> (string + nat \<times> nat) \<times> store" where
  "loop_body env historyId img counts d =
     (let scannedCount = fst counts; failedCount = snd counts
      in case try_block env historyId img scannedCount failedCount d of
           ((None, scannedCount'), d') \<Rightarrow> (Inr (scannedCount', failedCount), d')
         | ((Some err, scannedCount'), d') \<Rightarrow>
             (let failedCount' = failedCount + 1
              in case scheduledScanHistory_update env historyId
                        (\<lambda>h. h\<lparr> failedImages := Some failedCount' \<rparr>) d' of
                   (Some err', d'') \<Rightarrow> (Inl err', d'')
                 | (None, d'') \<Rightarrow> (Inr (scannedCount', failedCount'), d'')))"

text \<open>\<^verbatim>\<open>for (const image of images) { ... }\<close> (\<open>image\<close> is \<open>img\<close> here)\<close>

fun for_images ::
  "task_env \<Rightarrow> string \<Rightarrow> Image list \<Rightarrow> nat \<times> nat \<Rightarrow> store \<Rightarrow> (string + nat \<times> nat) \<times> store" where
  "for_images env historyId [] counts d = (Inr counts, d)"
| "for_images env historyId (img # images) counts d =
     (case loop_body env historyId img counts d of
        (Inl err, d') \<Rightarrow> (Inl err, d')
      | (Inr counts', d') \<Rightarrow> for_images env historyId images counts' d')"

text \<open>
  How the \<^verbatim>\<open>try\<close> block of one target ends: it runs to its end, it throws before
  \<^verbatim>\<open>scannedCount++\<close>, or it throws after it; and the outcomes of the targets that a
  run of the loop gets to, in order.
\<close>

datatype target_outcome = Completed | Threw_before_count | Threw_after_count

definition target_outcome_of ::
  "task_env \<Rightarrow> string \<Rightarrow> Image \<Rightarrow> nat \<times> nat \<Rightarrow> store \<Rightarrow> target_outcome" where
  "target_outcome_of env historyId img counts d =
     (case try_block env historyId img (fst counts) (snd counts) d of
        ((None, scannedCount'), d') \<Rightarrow> Completed
      | ((Some err, scannedCount'), d') \<Rightarrow>
          if scannedCount' = fst counts then Threw_before_count else Threw_after_count)"

fun outcomes ::
  "task_env \<Rightarrow> string \<Rightarrow> Image list \<Rightarrow> nat \<times> nat \<Rightarrow> store \<Rightarrow> target_outcome list" where
  "outcomes env historyId [] counts d = []"
| "outcomes env historyId (img # images) counts d =
     target_outcome_of env historyId img counts d #
     (case loop_body env historyId img counts d of
        (Inl err, d') \<Rightarrow> []
      | (Inr counts', d') \<Rightarrow> outcomes env historyId images counts' d')"

text \<open>The status expression of the last update.\<close>

definition final_status :: "nat \<Rightarrow> nat \<Rightarrow> HistoryStatus" where
  "final_status failedCount images_length =
     (if failedCount = images_length then H_FAILED
      else if failedCount > 0 then H_PARTIAL else H_COMPLETED)"

text \<open>
  \<^verbatim>\<open>startScanExecution(historyId, images)\<close>: \<open>Some\<close> of the message when its promise is
  rejected, and the tables it leaves.
\<close>

definition startScanExecution ::
  "task_env \<Rightarrow> string \<Rightarrow> Image list \<Rightarrow> store \<Rightarrow> string option \<times> store" where
  "startScanExecution env historyId images d =
     (case scheduledScanHistory_update env historyId
             (\<lambda>h. h\<lparr> history_status := H_RUNNING \<rparr>) d of
        (Some err, d1) \<Rightarrow> (Some err, d1)
      | (None, d1) \<Rightarrow>
          (case for_images env historyId images (0, 0) d1 of
             (Inl err, d2) \<Rightarrow> (Some err, d2)
           | (Inr (scannedCount, failedCount), d2) \<Rightarrow>
               scheduledScanHistory_update env historyId
                 (\<lambda>h. h\<lparr> history_status := final_status failedCount (length images),
                         completedAt := Some (new_Date env (calls d2)),
                         scannedImages := Some scannedCount,
                         failedImages := Some failedCount \<rparr>) d2))"

text \<open>
  \<^verbatim>\<open>startScanExecution(history.id, imagesToScan).catch(error => ...)\<close> as the handler
  starts it: the tables once the task and its rejection handler are done. A rejection of
  the handler's own update is only logged.
\<close>

definition background_task :: "task_env \<Rightarrow> string \<Rightarrow> Image list \<Rightarrow> store \<Rightarrow> store" where
  "background_task env historyId images d =
     (case startScanExecution env historyId images d of
        (None, d') \<Rightarrow> d'
      | (Some message, d') \<Rightarrow>
          snd (scheduledScanHistory_update env historyId
                 (\<lambda>h. h\<lparr> history_status := H_FAILED,
                         errorMessage := Some message,
                         completedAt := Some (new_Date env (calls d')) \<rparr>) d'))"

text \<open>The tables when the task starts: the row the handler has persisted, nothing else.\<close>

definition initial_store :: "ScheduledScanHistory \<Rightarrow> store" where
  "initial_store h = \<lparr> history = h, scans = [], results = [], calls = 0 \<rparr>"

text \<open>The history row of a store is still the same row, of the same batch size.\<close>

definition same_row :: "store \<Rightarrow> store \<Rightarrow> bool" where
  "same_row d d' =
     (history_id (history d') = history_id (history d) \<and>
      totalImages (history d') = totalImages (history d))"

text \<open>An HTTP status of the client-error class (4xx).\<close>

definition client_error :: "nat \<Rightarrow> bool" where
  "client_error code = (400 \<le> code \<and> code < 500)"

section \<open>Sample data\<close>

text \<open>
  A runtime whose clock reads 2024-01-01T00:00:31Z and that parses the five timestamps used
  below, and a store with a running, a failed, two successful and a queued job.
\<close>

definition sample_getTime :: "string \<Rightarrow> int option" where
  "sample_getTime s =
     (if s = ''2024-01-01T00:00:00.000Z'' then Some 1704067200000
      else if s = ''2024-01-01T00:00:05.000Z'' then Some 1704067205000
      else if s = ''2024-01-01T00:00:10.000Z'' then Some 1704067210000
      else if s = ''2024-01-01T00:00:28.000Z'' then Some 1704067228000
      else if s = ''2024-01-01T00:00:31.000Z'' then Some 1704067231000
      else None)"

definition sample_runtime :: runtime where
  "sample_runtime =
     \<lparr> Date_now = 1704067231000,
       Date_toISOString = (\<lambda>n. ''2024-01-01T00:00:31.000Z''),
       Date_getTime = sample_getTime \<rparr>"

definition sample_job :: "string \<Rightarrow> job_status \<Rightarrow> int \<Rightarrow> string \<Rightarrow> ScanJob" where
  "sample_job rid st p t =
     \<lparr> requestId = rid, scanId = ''scan-1'', imageId = ''image-1'', imageName = Some ''nginx'',
       status = st, progress = p, step = None, error = None,
       startTime = ''2024-01-01T00:00:00.000Z'', lastUpdate = t,
       queuePosition = None, estimatedWaitTime = None \<rparr>"

definition sample_jobs :: "ScanJob js_map" where
  "sample_jobs =
     DAList.update ''q1'' (sample_job ''q1'' QUEUED 0 ''2024-01-01T00:00:31.000Z'')
       (DAList.update ''r4'' (sample_job ''r4'' SUCCESS 100 ''2024-01-01T00:00:28.000Z'')
         (DAList.update ''r3'' (sample_job ''r3'' SUCCESS 100 ''2024-01-01T00:00:10.000Z'')
           (DAList.update ''r2'' (sample_job ''r2'' FAILED 40 ''2024-01-01T00:00:00.000Z'')
             (DAList.update ''r1'' (sample_job ''r1'' RUNNING 10 ''2024-01-01T00:00:00.000Z'')
               DAList.empty))))"

definition sample_state :: ScanningState where
  "sample_state = \<lparr> jobs = sample_jobs, queuedScans = [], lastFetchTime = 0, isPolling = False \<rparr>"

definition stale_event :: ScanProgressEvent where
  "stale_event =
     \<lparr> ev_requestId = ''r3'', ev_scanId = ''scan-1'', ev_status = RUNNING, ev_progress = 40,
       ev_step = Some ''analysing'', ev_error = None, ev_timestamp = ''2024-01-01T00:00:05.000Z'' \<rparr>"

text \<open>Two job maps seen by successive runs of the completion monitor.\<close>

definition monitor_before :: "ScanJob js_map" where
  "monitor_before =
     DAList.update ''r2'' (sample_job ''r2'' RUNNING 40 ''2024-01-01T00:00:00.000Z'')
       (DAList.update ''r1'' (sample_job ''r1'' RUNNING 90 ''2024-01-01T00:00:00.000Z'')
          DAList.empty)"

definition monitor_after :: "ScanJob js_map" where
  "monitor_after =
     DAList.update ''r2'' (sample_job ''r2'' FAILED 40 ''2024-01-01T00:00:05.000Z'')
       (DAList.update ''r1'' (sample_job ''r1'' SUCCESS 100 ''2024-01-01T00:00:05.000Z'')
          DAList.empty)"

text \<open>
  Five images, a schedule selecting them (its pattern matches none of them), the answers
  of Prisma to the request handler, the row the handler persists, and an environment of
  the background task that rejects chosen calls.
\<close>

definition sample_image :: "string \<Rightarrow> string \<Rightarrow> Image" where
  "sample_image n t =
     \<lparr> image_id = n @ ''-id'', image_name = n, image_tag = t, image_registry = ''docker.io'' \<rparr>"

definition five_images :: "Image list" where
  "five_images =
     [sample_image ''nginx'' ''1.25'', sample_image ''redis'' ''7'',
      sample_image ''postgres'' ''16'', sample_image ''node'' ''20'',
      sample_image ''alpine'' ''3.19'']"

definition sample_scheduledScan :: "bool \<Rightarrow> ImageSelectionMode \<Rightarrow> ScheduledScan" where
  "sample_scheduledScan on mode =
     \<lparr> enabled = on, imageSelectionMode = mode, imagePattern = Some ''^mysql'',
       selectedImages = five_images \<rparr>"

definition sample_POST_env :: "ScheduledScan \<Rightarrow> POST_env" where
  "sample_POST_env scan =
     \<lparr> scheduledScan_findUnique = (\<lambda>i. if i = ''schedule-1'' then Inr (Some scan) else Inr None),
       image_findMany = Inr five_images,
       new_RegExp = (\<lambda>p. if p = ''^mysql'' then Some (\<lambda>s. take 5 s = ''mysql'') else None),
       randomUUID = ''execution-1'',
       scheduledScanHistory_create = Inr ''history-1'',
       scheduledScan_update = Inr () \<rparr>"

definition sample_history :: "nat \<Rightarrow> ScheduledScanHistory" where
  "sample_history n =
     \<lparr> history_id = ''history-1'', scheduledScanId = ''schedule-1'',
       executionId = ''execution-1'', totalImages = n, history_status = H_PENDING,
       triggerSource = ''MANUAL'', triggeredBy = ''API'', scannedImages = None,
       failedImages = None, errorMessage = None, completedAt = None \<rparr>"

definition sample_task_env :: "(nat \<Rightarrow> string option) \<Rightarrow> task_env" where
  "sample_task_env r =
     \<lparr> rejects = r, new_Date = (\<lambda>n. 1704067200000 + 100 * int n),
       task_randomUUID = (\<lambda>n. ''request-'' @ decimal n), random_below = (\<lambda>n k. 0) \<rparr>"

definition rejected_calls :: "nat list \<Rightarrow> nat \<Rightarrow> string option" where
  "rejected_calls ks n =
     (if n \<in> set ks then Some ''Timed out fetching a new connection'' else None)"

definition database_lost_from :: "nat \<Rightarrow> nat \<Rightarrow> string option" where
  "database_lost_from k n = (if k \<le> n then Some ''Cannot reach database server'' else None)"

text \<open>
  A browser, the manager after \<^verbatim>\<open>connect('r1')\<close> on a new manager (the connection
  object at address 0, its EventSource with handle 1), and after that source has opened.
\<close>

definition sample_browser :: browser where
  "sample_browser = \<lparr> now = 1704067200000, EventSource_constructs = True \<rparr>"

definition connecting_manager :: SSEManager where
  "connecting_manager = snd (connect sample_browser ''r1'' None new_SSEManager)"

definition connected_manager :: SSEManager where
  "connected_manager = deliver sample_browser (ES_open 1) connecting_manager"

text \<open>
  Options as a caller may pass them: \<^verbatim>\<open>{ maxRetries: undefined }\<close>, and
  \<^verbatim>\<open>{ maxRetries: 2000, retryInterval: 0 }\<close> with what \<^verbatim>\<open>connect\<close> makes of it.
\<close>

definition undefined_retries :: SSEConnectionOptions where
  "undefined_retries =
     \<lparr> opt_maxRetries = Some None, opt_retryInterval = None, opt_heartbeatTimeout = None \<rparr>"

definition zero_interval :: SSEConnectionOptions where
  "zero_interval =
     \<lparr> opt_maxRetries = Some (Some 2000), opt_retryInterval = Some (Some 0),
       opt_heartbeatTimeout = None \<rparr>"

definition zero_interval_merged :: RequiredOptions where
  "zero_interval_merged = merge_options default_options (Some zero_interval)"

text \<open>
  A provider whose job map is the first sample map and whose manager has the channel of
  \<open>r1\<close> connected; the answer of a poll that shows \<open>r1\<close> finished; a queued job and the
  progress event that reports it finished.
\<close>

definition sample_provider :: provider where
  "sample_provider =
     \<lparr> prov_state = \<lparr> jobs = monitor_before, queuedScans = [], lastFetchTime = 0,
                      isPolling = False \<rparr>,
       prov_manager = connected_manager \<rparr>"

definition sample_poll :: fetch_result where
  "sample_poll =
     Response_ok [sample_job ''r1'' SUCCESS 100 ''2024-01-01T00:00:28.000Z'',
                  sample_job ''r2'' RUNNING 50 ''2024-01-01T00:00:28.000Z''] []"

definition queued_state :: ScanningState where
  "queued_state =
     \<lparr> jobs = DAList.update ''q1'' (sample_job ''q1'' QUEUED 0 ''2024-01-01T00:00:28.000Z'')
                DAList.empty,
       queuedScans = [], lastFetchTime = 0, isPolling = False \<rparr>"

definition success_event :: ScanProgressEvent where
  "success_event =
     \<lparr> ev_requestId = ''q1'', ev_scanId = ''scan-1'', ev_status = SUCCESS, ev_progress = 100,
       ev_step = None, ev_error = None, ev_timestamp = ''2024-01-01T00:00:31.000Z'' \<rparr>"

lemmas manager_defs = transport_fails_def reconnect_due_def onerror_def
  handleConnectionError_def establishConnection_def clearHeartbeatTimer_def
  clearReconnectTimer_def get_connection_def assign_def close_source_def clearTimeout_def
  setTimeout_def emitStatusChange_def emit_def Let_def

lemmas batch_defs = startScanExecution_def background_task_def scheduledScanHistory_update_def
  prisma_def loop_body_def try_block_def final_status_def initial_store_def Let_def

lemmas batch_sample_defs = sample_image_def five_images_def sample_scheduledScan_def
  sample_POST_env_def sample_history_def sample_task_env_def rejected_calls_def
  database_lost_from_def

lemmas sample_defs = sample_getTime_def sample_runtime_def sample_job_def sample_jobs_def
  sample_state_def stale_event_def

section \<open>Properties of the job state store\<close>

lemma lookup_fold_set:
  assumes "distinct (map fst xs)"
  shows "DAList.lookup
           (fold (\<lambda>(k, v) out. if keep v then DAList.update k v out else out) xs acc) key =
         (case map_of xs key of
            None \<Rightarrow> DAList.lookup acc key
          | Some v \<Rightarrow> if keep v then Some v else DAList.lookup acc key)"
  using assms
proof (induction xs arbitrary: acc)
  case Nil
  then show ?case by simp
next
  case (Cons p xs)
  obtain k v where p: "p = (k, v)" by (cases p)
  from Cons.prems p have fresh: "map_of xs k = None"
    by (simp add: map_of_eq_None_iff)
  from Cons.prems have d: "distinct (map fst xs)" by simp
  show ?case
    using Cons.IH [OF d] fresh p
    by (auto simp: DAList.lookup_update split: option.splits)
qed

lemma lookup_forEach_set:
  "DAList.lookup (forEach_set keep m) key =
     (case DAList.lookup m key of None \<Rightarrow> None | Some v \<Rightarrow> if keep v then Some v else None)"
proof -
  have "map_of (DAList.impl_of m) key = DAList.lookup m key"
    by (simp add: DAList.lookup.rep_eq)
  then show ?thesis
    unfolding forEach_set_def by (simp add: lookup_fold_set split: option.splits)
qed

text \<open>
  C10. \<^verbatim>\<open>AUTO_CLEANUP\<close> removes every job whose status is \<^verbatim>\<open>QUEUED\<close>, whatever the
  clock and its \<^verbatim>\<open>lastUpdate\<close> are: a queued job falls through all three branches of
  the loop body. A job that is in the map after the cleanup is \<^verbatim>\<open>RUNNING\<close>,
  \<^verbatim>\<open>SUCCESS\<close>, \<^verbatim>\<open>FAILED\<close> or \<^verbatim>\<open>CANCELLED\<close>.
\<close>

theorem auto_cleanup_drops_queued:
  "(DAList.lookup (jobs state) rid = Some job \<and> status job = QUEUED \<longrightarrow>
      DAList.lookup (jobs (scanningReducer rt state AUTO_CLEANUP)) rid = None) \<and>
   (DAList.lookup (jobs (scanningReducer rt state AUTO_CLEANUP)) rid = Some job' \<longrightarrow>
      status job' \<in> {RUNNING, SUCCESS, FAILED, CANCELLED})"
  by (cases "status job'")
     (auto simp: lookup_forEach_set cleanup_keeps_def split: option.splits if_splits)

text \<open>
  The queued job \<open>q1\<close> of the sample store was updated at the very instant of the cleanup
  and is removed; the running job \<open>r1\<close> stays.
\<close>

theorem auto_cleanup_drops_queued_witness:
  "DAList.lookup (jobs sample_state) ''q1'' =
     Some (sample_job ''q1'' QUEUED 0 ''2024-01-01T00:00:31.000Z'') \<and>
   Date_getTime sample_runtime ''2024-01-01T00:00:31.000Z'' = Some (Date_now sample_runtime) \<and>
   DAList.lookup (jobs (scanningReducer sample_runtime sample_state AUTO_CLEANUP)) ''q1'' = None \<and>
   DAList.lookup (jobs (scanningReducer sample_runtime sample_state AUTO_CLEANUP)) ''r1'' =
     Some (sample_job ''r1'' RUNNING 10 ''2024-01-01T00:00:00.000Z'')"
proof -
  have q: "DAList.lookup (jobs sample_state) ''q1'' =
             Some (sample_job ''q1'' QUEUED 0 ''2024-01-01T00:00:31.000Z'')"
    by (simp add: sample_state_def sample_jobs_def)
  have s: "status (sample_job ''q1'' QUEUED 0 ''2024-01-01T00:00:31.000Z'') = QUEUED"
    by (simp add: sample_job_def)
  have r: "DAList.lookup (jobs (scanningReducer sample_runtime sample_state AUTO_CLEANUP)) ''r1'' =
             Some (sample_job ''r1'' RUNNING 10 ''2024-01-01T00:00:00.000Z'')"
    by (simp add: lookup_forEach_set cleanup_keeps_def sample_state_def sample_jobs_def
          sample_job_def)
  have t: "Date_getTime sample_runtime ''2024-01-01T00:00:31.000Z'' = Some (Date_now sample_runtime)"
    by (simp add: sample_runtime_def sample_getTime_def)
  from auto_cleanup_drops_queued [of sample_state "''q1''"
      "sample_job ''q1'' QUEUED 0 ''2024-01-01T00:00:31.000Z''" sample_runtime
      "sample_job ''r1'' RUNNING 10 ''2024-01-01T00:00:00.000Z''"] q s r t
  show ?thesis by simp
qed

text \<open>
  C5. \<^verbatim>\<open>AUTO_CLEANUP\<close> at time \<^verbatim>\<open>Date.now()\<close>, for a job stored under \<open>rid\<close>: a
  \<^verbatim>\<open>RUNNING\<close> job is kept at any age; a \<^verbatim>\<open>SUCCESS\<close> job is kept exactly when the clock
  minus its last update is below 5000 ms; a \<^verbatim>\<open>FAILED\<close> or \<^verbatim>\<open>CANCELLED\<close> job exactly
  when it is below 30000 ms; the entry after the cleanup is the same job, unchanged, or
  absent; a \<^verbatim>\<open>FAILED\<close> job last updated 31 seconds before is removed. (A last update
  that \<^verbatim>\<open>new Date\<close> cannot read gives \<^verbatim>\<open>NaN\<close>, and no difference below the limit.)
\<close>

theorem auto_cleanup_retention:
  assumes "DAList.lookup (jobs state) rid = Some job"
  shows "(status job = RUNNING \<longrightarrow>
            DAList.lookup (jobs (scanningReducer rt state AUTO_CLEANUP)) rid = Some job) \<and>
         (status job = SUCCESS \<longrightarrow>
            (DAList.lookup (jobs (scanningReducer rt state AUTO_CLEANUP)) rid = Some job) =
            (\<exists>t. Date_getTime rt (lastUpdate job) = Some t \<and> Date_now rt - t < 5000)) \<and>
         (status job = FAILED \<or> status job = CANCELLED \<longrightarrow>
            (DAList.lookup (jobs (scanningReducer rt state AUTO_CLEANUP)) rid = Some job) =
            (\<exists>t. Date_getTime rt (lastUpdate job) = Some t \<and> Date_now rt - t < 30000)) \<and>
         (DAList.lookup (jobs (scanningReducer rt state AUTO_CLEANUP)) rid = Some job \<or>
          DAList.lookup (jobs (scanningReducer rt state AUTO_CLEANUP)) rid = None) \<and>
         (status job = FAILED \<and> Date_getTime rt (lastUpdate job) = Some u \<and>
          Date_now rt - u = 31000 \<longrightarrow>
            DAList.lookup (jobs (scanningReducer rt state AUTO_CLEANUP)) rid = None)"
  using assms
  by (auto simp: lookup_forEach_set cleanup_keeps_def younger_than_def split: option.splits)

text \<open>
  The sample store at 00:00:31: the failed job \<open>r2\<close>, last updated 31 seconds before, is
  removed; the running job \<open>r1\<close> of the same age stays; the successful job \<open>r4\<close>, 3
  seconds old, stays, and the successful job \<open>r3\<close>, 21 seconds old, is removed.
\<close>

theorem auto_cleanup_retention_witness:
  "DAList.lookup (jobs sample_state) ''r2'' =
     Some (sample_job ''r2'' FAILED 40 ''2024-01-01T00:00:00.000Z'') \<and>
   Date_getTime sample_runtime ''2024-01-01T00:00:00.000Z'' = Some 1704067200000 \<and>
   Date_now sample_runtime - 1704067200000 = 31000 \<and>
   DAList.lookup (jobs (scanningReducer sample_runtime sample_state AUTO_CLEANUP)) ''r2'' = None \<and>
   DAList.lookup (jobs (scanningReducer sample_runtime sample_state AUTO_CLEANUP)) ''r1'' =
     Some (sample_job ''r1'' RUNNING 10 ''2024-01-01T00:00:00.000Z'') \<and>
   DAList.lookup (jobs (scanningReducer sample_runtime sample_state AUTO_CLEANUP)) ''r4'' =
     Some (sample_job ''r4'' SUCCESS 100 ''2024-01-01T00:00:28.000Z'') \<and>
   DAList.lookup (jobs (scanningReducer sample_runtime sample_state AUTO_CLEANUP)) ''r3'' = None"
proof -
  let ?after = "jobs (scanningReducer sample_runtime sample_state AUTO_CLEANUP)"
  have l: "DAList.lookup (jobs sample_state) ''r2'' =
             Some (sample_job ''r2'' FAILED 40 ''2024-01-01T00:00:00.000Z'')"
    and l1: "DAList.lookup (jobs sample_state) ''r1'' =
             Some (sample_job ''r1'' RUNNING 10 ''2024-01-01T00:00:00.000Z'')"
    and l4: "DAList.lookup (jobs sample_state) ''r4'' =
             Some (sample_job ''r4'' SUCCESS 100 ''2024-01-01T00:00:28.000Z'')"
    and l3: "DAList.lookup (jobs sample_state) ''r3'' =
             Some (sample_job ''r3'' SUCCESS 100 ''2024-01-01T00:00:10.000Z'')"
    by (simp_all add: sample_state_def sample_jobs_def)
  have f: "status (sample_job rid st p t) = st" and u: "lastUpdate (sample_job rid st p t) = t"
    for rid st p t
    by (simp_all add: sample_job_def)
  have t: "Date_getTime sample_runtime ''2024-01-01T00:00:00.000Z'' = Some 1704067200000"
    and n: "Date_now sample_runtime - 1704067200000 = 31000"
    and t4: "\<exists>t. Date_getTime sample_runtime ''2024-01-01T00:00:28.000Z'' = Some t \<and>
               Date_now sample_runtime - t < 5000"
    and t3: "\<not> (\<exists>t. Date_getTime sample_runtime ''2024-01-01T00:00:10.000Z'' = Some t \<and>
               Date_now sample_runtime - t < 5000)"
    by (simp_all add: sample_runtime_def sample_getTime_def)
  from auto_cleanup_retention [OF l, of sample_runtime 1704067200000] f u t n
  have r2: "DAList.lookup ?after ''r2'' = None" by simp
  from auto_cleanup_retention [OF l1, of sample_runtime] f
  have r1: "DAList.lookup ?after ''r1'' =
              Some (sample_job ''r1'' RUNNING 10 ''2024-01-01T00:00:00.000Z'')" by simp
  from auto_cleanup_retention [OF l4, of sample_runtime] f u t4
  have r4: "DAList.lookup ?after ''r4'' =
              Some (sample_job ''r4'' SUCCESS 100 ''2024-01-01T00:00:28.000Z'')" by simp
  from auto_cleanup_retention [OF l3, of sample_runtime] f u t3
  have r3: "DAList.lookup ?after ''r3'' = None" by auto
  from l t n r2 r1 r4 r3 show ?thesis by simp
qed

text \<open>
  A stale event regresses a job. The sample store holds \<open>r3\<close> as \<^verbatim>\<open>SUCCESS\<close> at 100
  percent, last updated at 00:00:10; an event for \<open>r3\<close> stamped 00:00:05 with
  \<^verbatim>\<open>RUNNING\<close> at 40 percent leaves the job \<^verbatim>\<open>RUNNING\<close> at 40 percent.
\<close>

theorem stale_event_counterexample:
  "DAList.lookup (jobs sample_state) ''r3'' =
     Some (sample_job ''r3'' SUCCESS 100 ''2024-01-01T00:00:10.000Z'') \<and>
   ev_requestId stale_event = ''r3'' \<and>
   Date_getTime sample_runtime (ev_timestamp stale_event) = Some 1704067205000 \<and>
   Date_getTime sample_runtime
     (lastUpdate (sample_job ''r3'' SUCCESS 100 ''2024-01-01T00:00:10.000Z'')) = Some 1704067210000 \<and>
   map_option (\<lambda>j. (status j, progress j)) (DAList.lookup (jobs sample_state) ''r3'') =
     Some (SUCCESS, 100) \<and>
   map_option (\<lambda>j. (status j, progress j))
     (DAList.lookup
        (jobs (scanningReducer sample_runtime sample_state (UPDATE_SCAN_PROGRESS stale_event)))
        ''r3'') = Some (RUNNING, 40)"
  by (simp add: sample_defs updatedJob_def)

text \<open>
  C1, as the reducer has it. \<^verbatim>\<open>UPDATE_SCAN_PROGRESS\<close> compares no timestamps: for every
  store and every event, also one older than the stored \<^verbatim>\<open>lastUpdate\<close>, the job under
  the event's \<^verbatim>\<open>requestId\<close> has afterwards the event's \<^verbatim>\<open>requestId\<close>, \<^verbatim>\<open>scanId\<close>,
  \<^verbatim>\<open>status\<close>, \<^verbatim>\<open>progress\<close>, \<^verbatim>\<open>step\<close> and \<^verbatim>\<open>error\<close>, the event's timestamp as
  \<^verbatim>\<open>lastUpdate\<close>, and no queue metadata. Of a job stored before, only \<^verbatim>\<open>imageId\<close>,
  \<^verbatim>\<open>imageName\<close> and a non-empty \<^verbatim>\<open>startTime\<close> are kept; without one, \<^verbatim>\<open>imageId\<close>
  is empty, \<^verbatim>\<open>imageName\<close> is absent and \<^verbatim>\<open>startTime\<close> is the event's timestamp. The
  jobs under other keys stay as they are.
\<close>

theorem update_scan_progress_overwrites:
  "(\<exists>job'. DAList.lookup (jobs (scanningReducer rt state (UPDATE_SCAN_PROGRESS event)))
              (ev_requestId event) = Some job' \<and>
           requestId job' = ev_requestId event \<and> scanId job' = ev_scanId event \<and>
           status job' = ev_status event \<and> progress job' = ev_progress event \<and>
           step job' = ev_step event \<and> error job' = ev_error event \<and>
           lastUpdate job' = ev_timestamp event \<and>
           queuePosition job' = None \<and> estimatedWaitTime job' = None \<and>
           (DAList.lookup (jobs state) (ev_requestId event) = None \<longrightarrow>
              imageId job' = [] \<and> imageName job' = None \<and>
              startTime job' = ev_timestamp event) \<and>
           (\<forall>old. DAList.lookup (jobs state) (ev_requestId event) = Some old \<longrightarrow>
              imageId job' = imageId old \<and> imageName job' = imageName old \<and>
              startTime job' =
                (if startTime old = [] then ev_timestamp event else startTime old))) \<and>
   (\<forall>k. k \<noteq> ev_requestId event \<longrightarrow>
      DAList.lookup (jobs (scanningReducer rt state (UPDATE_SCAN_PROGRESS event))) k =
      DAList.lookup (jobs state) k)"
  by (simp add: updatedJob_def)

text \<open>
  The stale event of the sample data, applied to the sample store: of the stored job
  \<open>r3\<close> the step is replaced too, and the job \<open>r1\<close> is untouched.
\<close>

theorem update_scan_progress_overwrites_witness:
  "DAList.lookup (jobs sample_state) (ev_requestId stale_event) =
     Some (sample_job ''r3'' SUCCESS 100 ''2024-01-01T00:00:10.000Z'') \<and>
   ''r1'' \<noteq> ev_requestId stale_event \<and>
   DAList.lookup
     (jobs (scanningReducer sample_runtime sample_state (UPDATE_SCAN_PROGRESS stale_event)))
     ''r3'' =
   Some ((sample_job ''r3'' RUNNING 40 ''2024-01-01T00:00:05.000Z'')
           \<lparr> step := Some ''analysing'' \<rparr>) \<and>
   DAList.lookup
     (jobs (scanningReducer sample_runtime sample_state (UPDATE_SCAN_PROGRESS stale_event)))
     ''r1'' = DAList.lookup (jobs sample_state) ''r1''"
proof -
  let ?after = "jobs (scanningReducer sample_runtime sample_state (UPDATE_SCAN_PROGRESS stale_event))"
  have old: "DAList.lookup (jobs sample_state) (ev_requestId stale_event) =
               Some (sample_job ''r3'' SUCCESS 100 ''2024-01-01T00:00:10.000Z'')"
    and other: "''r1'' \<noteq> ev_requestId stale_event"
    by (simp_all add: sample_state_def sample_jobs_def stale_event_def)
  note t = update_scan_progress_overwrites [of sample_runtime sample_state stale_event]
  from t obtain job' where j:
    "DAList.lookup ?after (ev_requestId stale_event) = Some job'"
    "requestId job' = ev_requestId stale_event" "scanId job' = ev_scanId stale_event"
    "status job' = ev_status stale_event" "progress job' = ev_progress stale_event"
    "step job' = ev_step stale_event" "error job' = ev_error stale_event"
    "lastUpdate job' = ev_timestamp stale_event"
    "queuePosition job' = None" "estimatedWaitTime job' = None"
    "\<forall>old. DAList.lookup (jobs sample_state) (ev_requestId stale_event) = Some old \<longrightarrow>
       imageId job' = imageId old \<and> imageName job' = imageName old \<and>
       startTime job' =
         (if startTime old = [] then ev_timestamp stale_event else startTime old)"
    by blast
  from j(11) old have kept: "imageId job' = ''image-1''" "imageName job' = Some ''nginx''"
    "startTime job' = ''2024-01-01T00:00:00.000Z''"
    by (simp_all add: sample_job_def)
  from j kept have "job' = (sample_job ''r3'' RUNNING 40 ''2024-01-01T00:00:05.000Z'')
                             \<lparr> step := Some ''analysing'' \<rparr>"
    by (simp add: stale_event_def sample_job_def)
  with j(1) have r3: "DAList.lookup ?after ''r3'' =
      Some ((sample_job ''r3'' RUNNING 40 ''2024-01-01T00:00:05.000Z'')
              \<lparr> step := Some ''analysing'' \<rparr>)"
    by (simp add: stale_event_def)
  from t other have r1: "DAList.lookup ?after ''r1'' = DAList.lookup (jobs sample_state) ''r1''"
    by blast
  from old other r3 r1 show ?thesis by blast
qed

section \<open>Properties of the completion monitor\<close>

lemma monitor_entry_requestId:
  assumes "requestId job = k" and "e \<in> set (monitor_entry ref previousJobs (k, job))"
  shows "effect_requestId e = k"
  using assms by (auto simp: monitor_entry_def Let_def split: if_splits option.splits)

lemma filter_concat_entries:
  assumes "distinct (map fst xs)"
    and "(rid, job) \<in> set xs"
    and "\<And>k j e. (k, j) \<in> set xs \<Longrightarrow> e \<in> set (f (k, j)) \<Longrightarrow> tag e = k"
  shows "filter (\<lambda>e. tag e = rid) (concat (map f xs)) = f (rid, job)"
  using assms
proof (induction xs)
  case Nil
  then show ?case by simp
next
  case (Cons p xs)
  obtain k j where p: "p = (k, j)" by (cases p)
  show ?case
  proof (cases "p = (rid, job)")
    case True
    with Cons.prems(1) have "\<forall>q \<in> set xs. fst q \<noteq> rid" by auto
    with Cons.prems(3) have "\<forall>q \<in> set xs. \<forall>e \<in> set (f q). tag e \<noteq> rid"
      by (metis list.set_intros(2) prod.collapse)
    then have "filter (\<lambda>e. tag e = rid) (concat (map f xs)) = []"
      by (auto simp: filter_empty_conv)
    moreover have "filter (\<lambda>e. tag e = rid) (f (rid, job)) = f (rid, job)"
      using Cons.prems(3) [of rid job] True by (auto simp: filter_id_conv)
    ultimately show ?thesis using True by simp
  next
    case False
    with Cons.prems(2) have mem: "(rid, job) \<in> set xs" by simp
    with Cons.prems(1) p have "k \<noteq> rid" by force
    with Cons.prems(3) [of k j] p have "filter (\<lambda>e. tag e = rid) (f p) = []"
      by (auto simp: filter_empty_conv)
    moreover have d: "distinct (map fst xs)"
      using Cons.prems(1) by simp
    have tags: "tag e = k'" if "(k', j') \<in> set xs" and "e \<in> set (f (k', j'))" for k' j' e
      using Cons.prems(3) [of k' j' e] that by simp
    have "filter (\<lambda>e. tag e = rid) (concat (map f xs)) = f (rid, job)"
      using d mem tags by (rule Cons.IH)
    ultimately show ?thesis by simp
  qed
qed

lemma lookup_entry:
  "DAList.lookup m k = Some v \<longleftrightarrow> (k, v) \<in> set (DAList.impl_of m)"
  by (simp add: DAList.lookup.rep_eq)

lemma monitor_effects_of:
  assumes "keyed_by_requestId currentJobs" and "DAList.lookup currentJobs rid = Some job"
  shows "filter (\<lambda>e. effect_requestId e = rid)
           (fst (completion_monitor ref previousJobs currentJobs)) =
         monitor_entry ref previousJobs (rid, job)"
proof -
  have "(rid, job) \<in> set (DAList.impl_of currentJobs)"
    using assms(2) by (simp add: lookup_entry)
  moreover have "effect_requestId e = k"
    if "(k, j) \<in> set (DAList.impl_of currentJobs)"
      and "e \<in> set (monitor_entry ref previousJobs (k, j))" for k j e
  proof -
    from assms(1) that(1) have "requestId j = k"
      by (auto simp: keyed_by_requestId_def list_all_iff)
    then show ?thesis using that(2) by (rule monitor_entry_requestId)
  qed
  ultimately show ?thesis
    unfolding completion_monitor_def fst_conv
    by (intro filter_concat_entries) simp_all
qed

lemma monitor_unchanged:
  "fst (completion_monitor ref currentJobs currentJobs) = []"
proof -
  have "monitor_entry ref currentJobs p = []" if "p \<in> set (DAList.impl_of currentJobs)" for p
  proof -
    obtain k j where p: "p = (k, j)" by (cases p)
    with that have "DAList.lookup currentJobs k = Some j" by (simp add: lookup_entry)
    with p show ?thesis by (auto simp: monitor_entry_def)
  qed
  then show ?thesis by (simp add: completion_monitor_def)
qed

text \<open>The reducer keeps every job stored under its own \<^verbatim>\<open>requestId\<close>.\<close>

lemma keyed_by_requestId_lookup:
  "keyed_by_requestId m \<longleftrightarrow> (\<forall>k job. DAList.lookup m k = Some job \<longrightarrow> requestId job = k)"
  by (auto simp: keyed_by_requestId_def list_all_iff lookup_entry)

lemma keyed_fold_update:
  "keyed_by_requestId acc \<Longrightarrow>
   keyed_by_requestId (fold (\<lambda>job jobsMap. DAList.update (requestId job) job jobsMap) payload acc)"
proof (induction payload arbitrary: acc)
  case Nil
  then show ?case by simp
next
  case (Cons job payload)
  from Cons.prems have "keyed_by_requestId (DAList.update (requestId job) job acc)"
    by (auto simp: keyed_by_requestId_lookup DAList.lookup_update split: if_splits)
  then show ?case using Cons.IH by simp
qed

lemma scanningReducer_keyed:
  assumes "keyed_by_requestId (jobs state)"
  shows "keyed_by_requestId (jobs (scanningReducer rt state action))"
proof (cases action)
  case (UPDATE_SCAN_PROGRESS event)
  with assms show ?thesis
    by (auto simp: keyed_by_requestId_lookup DAList.lookup_update updatedJob_def split: if_splits)
next
  case (ADD_SCAN_JOB payload)
  with assms show ?thesis
    by (auto simp: keyed_by_requestId_lookup DAList.lookup_update Let_def split: if_splits)
next
  case (REMOVE_SCAN_JOB rid)
  with assms show ?thesis
    by (auto simp: keyed_by_requestId_lookup split: if_splits)
next
  case (SET_JOBS payload)
  have "keyed_by_requestId (DAList.empty :: ScanJob js_map)"
    by (simp add: keyed_by_requestId_lookup)
  with SET_JOBS show ?thesis by (simp add: keyed_fold_update)
next
  case (SET_QUEUED_SCANS payload)
  with assms show ?thesis by simp
next
  case CLEAR_COMPLETED_JOBS
  with assms show ?thesis
    by (auto simp: keyed_by_requestId_lookup lookup_forEach_set split: option.splits if_splits)
next
  case AUTO_CLEANUP
  with assms show ?thesis
    by (auto simp: keyed_by_requestId_lookup lookup_forEach_set split: option.splits if_splits)
next
  case (SET_POLLING b)
  with assms show ?thesis by simp
qed

section \<open>Properties of the batch execution pipeline\<close>

text \<open>
  No call of the task changes the id or the batch size of the history row, and the loop
  body raises each counter by at most one.
\<close>

lemma same_row_refl: "same_row d d"
  by (simp add: same_row_def)

lemma same_row_trans: "same_row d d1 \<Longrightarrow> same_row d1 d2 \<Longrightarrow> same_row d d2"
  by (simp add: same_row_def)

lemma prisma_same_row:
  assumes "prisma env write d = (e, d')" and "\<And>x. history (write x) = history x"
  shows "same_row d d'"
  using assms by (auto simp: prisma_def same_row_def split: option.splits)

lemma history_update_same_row:
  assumes "scheduledScanHistory_update env hid data d = (e, d')"
    and "\<And>h. history_id (data h) = history_id h \<and> totalImages (data h) = totalImages h"
  shows "same_row d d'"
  using assms
  by (auto simp: scheduledScanHistory_update_def prisma_def same_row_def
           split: option.splits if_splits)

lemma try_block_same_row:
  assumes "try_block env hid img sc fc d = ((e, sc'), d')"
  shows "same_row d d' \<and> sc' \<le> Suc sc"
  using assms
  by (auto simp: try_block_def Let_def prisma_def scheduledScanHistory_update_def same_row_def
           split: option.splits if_splits prod.splits)

lemma loop_body_counts:
  assumes "loop_body env hid img (sc, fc) d = (r, d')"
  shows "same_row d d' \<and> (\<forall>sc' fc'. r = Inr (sc', fc') \<longrightarrow> sc' \<le> Suc sc \<and> fc' \<le> Suc fc)"
proof -
  obtain e sc1 d1 where t: "try_block env hid img sc fc d = ((e, sc1), d1)"
    by (metis surj_pair)
  then have r1: "same_row d d1" and s1: "sc1 \<le> Suc sc"
    using try_block_same_row by blast+
  show ?thesis
  proof (cases e)
    case None
    with assms t r1 s1 show ?thesis by (auto simp: loop_body_def)
  next
    case (Some err)
    obtain e2 d2 where u: "scheduledScanHistory_update env hid
        (\<lambda>h. h\<lparr> failedImages := Some (fc + 1) \<rparr>) d1 = (e2, d2)"
      by (metis surj_pair)
    then have "same_row d1 d2" by (rule history_update_same_row) simp
    with r1 have "same_row d d2" by (rule same_row_trans)
    with assms t Some u s1 show ?thesis
      by (auto simp: loop_body_def split: option.splits)
  qed
qed

lemma for_images_counts:
  assumes "for_images env hid images (sc, fc) d = (r, d')"
  shows "same_row d d' \<and>
         (\<forall>sc' fc'. r = Inr (sc', fc') \<longrightarrow>
            sc' \<le> sc + length images \<and> fc' \<le> fc + length images)"
  using assms
proof (induction images arbitrary: sc fc d)
  case Nil
  then show ?case by (auto simp: same_row_refl)
next
  case (Cons img images)
  obtain r1 d1 where b: "loop_body env hid img (sc, fc) d = (r1, d1)"
    by (metis surj_pair)
  note step = loop_body_counts [OF b]
  show ?case
  proof (cases r1)
    case (Inl err)
    with Cons.prems b step show ?thesis by auto
  next
    case (Inr counts)
    obtain sc1 fc1 where c: "counts = (sc1, fc1)" by (cases counts)
    with Cons.prems b Inr have rest: "for_images env hid images (sc1, fc1) d1 = (r, d')"
      by simp
    from step Inr c have le: "sc1 \<le> Suc sc" "fc1 \<le> Suc fc" by auto
    from Cons.IH [OF rest] step le show ?thesis
      by (auto intro: same_row_trans)
  qed
qed

lemma startScanExecution_same_row:
  assumes "startScanExecution env hid images d = (e, d')"
  shows "same_row d d'"
proof -
  obtain e1 d1 where u1: "scheduledScanHistory_update env hid
      (\<lambda>h. h\<lparr> history_status := H_RUNNING \<rparr>) d = (e1, d1)"
    by (metis surj_pair)
  then have r1: "same_row d d1" by (rule history_update_same_row) simp
  obtain r2 d2 where l: "for_images env hid images (0, 0) d1 = (r2, d2)"
    by (metis surj_pair)
  then have r2: "same_row d1 d2" using for_images_counts by blast
  show ?thesis
  proof (cases e1)
    case (Some err)
    with assms u1 r1 show ?thesis by (simp add: startScanExecution_def)
  next
    case None
    show ?thesis
    proof (cases r2)
      case (Inl err)
      with assms u1 None l r1 r2 show ?thesis
        by (auto simp: startScanExecution_def intro: same_row_trans)
    next
      case (Inr counts)
      obtain sc fc where c: "counts = (sc, fc)" by (cases counts)
      with assms u1 None l Inr have
        "scheduledScanHistory_update env hid
           (\<lambda>h. h\<lparr> history_status := final_status fc (length images),
                   completedAt := Some (new_Date env (calls d2)),
                   scannedImages := Some sc, failedImages := Some fc \<rparr>) d2 = (e, d')"
        by (simp add: startScanExecution_def)
      then have "same_row d2 d'" by (rule history_update_same_row) simp
      with r1 r2 show ?thesis by (blast intro: same_row_trans)
    qed
  qed
qed

lemma history_update_accepted:
  assumes "scheduledScanHistory_update env hid data d = (None, d')"
  shows "history d' = data (history d)"
  using assms
  by (auto simp: scheduledScanHistory_update_def prisma_def split: option.splits if_splits)

lemma startScanExecution_fulfilled:
  assumes "startScanExecution env hid images d = (None, d')"
  shows "\<exists>sc fc t. sc \<le> length images \<and> fc \<le> length images \<and>
           history_status (history d') = final_status fc (length images) \<and>
           scannedImages (history d') = Some sc \<and> failedImages (history d') = Some fc \<and>
           completedAt (history d') = Some t"
proof -
  obtain e1 d1 where u1: "scheduledScanHistory_update env hid
      (\<lambda>h. h\<lparr> history_status := H_RUNNING \<rparr>) d = (e1, d1)"
    by (metis surj_pair)
  obtain r2 d2 where l: "for_images env hid images (0, 0) d1 = (r2, d2)"
    by (metis surj_pair)
  from assms u1 have e1: "e1 = None"
    by (cases e1) (simp_all add: startScanExecution_def)
  from assms u1 e1 l obtain sc fc where r2: "r2 = Inr (sc, fc)"
    by (cases r2) (auto simp: startScanExecution_def)
  from for_images_counts [OF l] r2 have le: "sc \<le> length images" "fc \<le> length images"
    by auto
  from assms u1 e1 l r2 have
    "scheduledScanHistory_update env hid
       (\<lambda>h. h\<lparr> history_status := final_status fc (length images),
               completedAt := Some (new_Date env (calls d2)),
               scannedImages := Some sc, failedImages := Some fc \<rparr>) d2 = (None, d')"
    by (simp add: startScanExecution_def)
  from history_update_accepted [OF this] le show ?thesis by simp
qed

lemma POST_started:
  assumes "started (POST penv params_id) = Some (hid, images)"
  shows "images \<noteq> [] \<and>
         (\<exists>h. persisted (POST penv params_id) = Some h \<and> history_id h = hid \<and>
              totalImages h = length images \<and> history_status h = H_PENDING)"
  using assms
  by (auto simp: POST_def Let_def split: sum.splits option.splits if_splits)

text \<open>
  The counters at the end of the loop count the outcomes of the targets: a target whose
  \<^verbatim>\<open>try\<close> block runs to its end or throws after \<^verbatim>\<open>scannedCount++\<close> is in
  \<^verbatim>\<open>scannedCount\<close>, a target whose \<^verbatim>\<open>try\<close> block throws is in \<^verbatim>\<open>failedCount\<close>.
\<close>

lemma try_block_count:
  assumes "try_block env hid img sc fc d = ((e, sc'), d')"
  shows "(e = None \<longrightarrow> sc' = Suc sc) \<and> (sc' = sc \<or> sc' = Suc sc)"
  using assms
  by (auto simp: try_block_def Let_def prisma_def scheduledScanHistory_update_def
           split: option.splits if_splits prod.splits)
     (metis+)

lemma loop_body_outcome:
  assumes "loop_body env hid img (sc, fc) d = (Inr (sc', fc'), d')"
  shows "sc' = sc + (if target_outcome_of env hid img (sc, fc) d = Threw_before_count then 0 else 1) \<and>
         fc' = fc + (if target_outcome_of env hid img (sc, fc) d = Completed then 0 else 1)"
proof -
  obtain e sc1 d1 where t: "try_block env hid img sc fc d = ((e, sc1), d1)"
    by (metis surj_pair)
  note c = try_block_count [OF t]
  show ?thesis
  proof (cases e)
    case None
    with assms t c show ?thesis
      by (auto simp: loop_body_def target_outcome_of_def)
  next
    case (Some err)
    with assms t c show ?thesis
      by (auto simp: loop_body_def target_outcome_of_def Let_def split: option.splits prod.splits)
  qed
qed

lemma count_outcomes: "length outs =
    count_list outs Completed + count_list outs Threw_before_count +
    count_list outs Threw_after_count"
proof (induction outs)
  case Nil
  then show ?case by simp
next
  case (Cons out outs)
  then show ?case by (cases out) simp_all
qed

lemma for_images_outcomes:
  assumes "for_images env hid images (sc, fc) d = (Inr (sc', fc'), d')"
  shows "length (outcomes env hid images (sc, fc) d) = length images \<and>
         sc' = sc + count_list (outcomes env hid images (sc, fc) d) Completed +
                   count_list (outcomes env hid images (sc, fc) d) Threw_after_count \<and>
         fc' = fc + count_list (outcomes env hid images (sc, fc) d) Threw_before_count +
                   count_list (outcomes env hid images (sc, fc) d) Threw_after_count"
  using assms
proof (induction images arbitrary: sc fc d)
  case Nil
  then show ?case by simp
next
  case (Cons img images)
  obtain r1 d1 where b: "loop_body env hid img (sc, fc) d = (r1, d1)"
    by (metis surj_pair)
  from Cons.prems b obtain sc1 fc1 where r1: "r1 = Inr (sc1, fc1)"
    by (cases r1) auto
  from Cons.prems b r1 have rest: "for_images env hid images (sc1, fc1) d1 = (Inr (sc', fc'), d')"
    by simp
  from b r1 have step: "loop_body env hid img (sc, fc) d = (Inr (sc1, fc1), d1)" by simp
  note o = loop_body_outcome [OF step]
  from Cons.IH [OF rest] o step show ?case
    by (cases "target_outcome_of env hid img (sc, fc) d") simp_all
qed

text \<open>
  A loop that has finished, and a last update that is rejected. One target, whose
  \<^verbatim>\<open>try\<close> block completes; the loop ends with the counters (1, 0); the last update
  of the task (call 5) is rejected and the rejection handler's update is accepted: the
  row ends \<^verbatim>\<open>FAILED\<close> with \<^verbatim>\<open>failedImages\<close> 0 of 1 target. And five targets of which
  the second and the fourth fail at the progress update (calls 8 and 17): three
  complete, two fail, and the row ends with the counters 5 and 2.
\<close>

theorem final_status_counterexample:
  "(let env = sample_task_env (rejected_calls [5]);
        nginx = sample_image ''nginx'' ''1.25'';
        d0 = initial_store (sample_history 1);
        d1 = snd (scheduledScanHistory_update env ''history-1''
                    (\<lambda>h. h\<lparr> history_status := H_RUNNING \<rparr>) d0);
        d = background_task env ''history-1'' [nginx] d0
    in fst (for_images env ''history-1'' [nginx] (0, 0) d1) = Inr (1, 0) \<and>
       history_status (history d) = H_FAILED \<and> totalImages (history d) = 1 \<and>
       scannedImages (history d) = Some 1 \<and> failedImages (history d) = Some 0) \<and>
   (let env = sample_task_env (rejected_calls [8, 17]);
        d0 = initial_store (sample_history 5);
        d1 = snd (scheduledScanHistory_update env ''history-1''
                    (\<lambda>h. h\<lparr> history_status := H_RUNNING \<rparr>) d0);
        d = snd (startScanExecution env ''history-1'' five_images d0)
    in outcomes env ''history-1'' five_images (0, 0) d1 =
         [Completed, Threw_after_count, Completed, Threw_after_count, Completed] \<and>
       fst (startScanExecution env ''history-1'' five_images d0) = None \<and>
       history_status (history d) = H_PARTIAL \<and> totalImages (history d) = 5 \<and>
       scannedImages (history d) = Some 5 \<and> failedImages (history d) = Some 2)"
  by (simp add: batch_defs batch_sample_defs target_outcome_of_def)

text \<open>
  C2, as the task has it. For every execution that the request handler starts (so with
  at least one target) and whose task runs to its end with its last update accepted,
  the history row holds the final counters, and its status is a function of them alone:
  \<^verbatim>\<open>FAILED\<close> exactly when \<^verbatim>\<open>failedImages\<close> equals the number of targets,
  \<^verbatim>\<open>PARTIAL\<close> exactly when it lies strictly between 0 and that number,
  \<^verbatim>\<open>COMPLETED\<close> exactly when it is 0. When no \<^verbatim>\<open>try\<close> block throws after
  \<^verbatim>\<open>scannedCount++\<close>, the counters are the number of targets whose \<^verbatim>\<open>try\<close> block ran
  to its end and the number of targets whose \<^verbatim>\<open>try\<close> block threw; so a batch of 5
  targets of which 3 complete and 2 throw before the count ends \<^verbatim>\<open>PARTIAL\<close> with the
  counters 3 and 2.
\<close>

theorem final_status_from_counters:
  assumes "started (POST penv params_id) = Some (hid, images)"
    and "persisted (POST penv params_id) = Some h"
    and "startScanExecution env hid images (initial_store h) = (None, d)"
    and "outs = outcomes env hid images (0, 0)
                  (snd (scheduledScanHistory_update env hid
                          (\<lambda>h. h\<lparr> history_status := H_RUNNING \<rparr>) (initial_store h)))"
  shows "(\<exists>scannedCount failedCount.
            scannedImages (history d) = Some scannedCount \<and>
            failedImages (history d) = Some failedCount \<and>
            totalImages (history d) = length images \<and>
            (history_status (history d) = H_FAILED \<longleftrightarrow> failedCount = totalImages (history d)) \<and>
            (history_status (history d) = H_PARTIAL \<longleftrightarrow>
               0 < failedCount \<and> failedCount < totalImages (history d)) \<and>
            (history_status (history d) = H_COMPLETED \<longleftrightarrow> failedCount = 0)) \<and>
         (Threw_after_count \<notin> set outs \<longrightarrow>
            scannedImages (history d) = Some (count_list outs Completed) \<and>
            failedImages (history d) = Some (count_list outs Threw_before_count)) \<and>
         (length images = 5 \<and> count_list outs Completed = 3 \<and>
          count_list outs Threw_before_count = 2 \<longrightarrow>
            history_status (history d) = H_PARTIAL \<and>
            scannedImages (history d) = Some 3 \<and> failedImages (history d) = Some 2)"
proof -
  let ?d1 = "snd (scheduledScanHistory_update env hid
                    (\<lambda>h. h\<lparr> history_status := H_RUNNING \<rparr>) (initial_store h))"
  from POST_started [OF assms(1)] assms(2)
  have ne: "images \<noteq> []" and total: "totalImages h = length images" by auto
  from startScanExecution_same_row [OF assms(3)] total
  have t: "totalImages (history d) = length images"
    by (simp add: same_row_def initial_store_def)
  obtain e1 d1 where u1: "scheduledScanHistory_update env hid
      (\<lambda>h. h\<lparr> history_status := H_RUNNING \<rparr>) (initial_store h) = (e1, d1)"
    by (metis surj_pair)
  then have d1: "?d1 = d1" by simp
  obtain r2 d2 where l: "for_images env hid images (0, 0) d1 = (r2, d2)"
    by (metis surj_pair)
  from assms(3) u1 have e1: "e1 = None"
    by (cases e1) (simp_all add: startScanExecution_def)
  from assms(3) u1 e1 l obtain sc fc where r2: "r2 = Inr (sc, fc)"
    by (cases r2) (auto simp: startScanExecution_def)
  from l r2 have loop: "for_images env hid images (0, 0) d1 = (Inr (sc, fc), d2)" by simp
  from for_images_counts [OF l] r2 have le: "fc \<le> length images" by auto
  from assms(3) u1 e1 l r2 have
    "scheduledScanHistory_update env hid
       (\<lambda>h. h\<lparr> history_status := final_status fc (length images),
               completedAt := Some (new_Date env (calls d2)),
               scannedImages := Some sc, failedImages := Some fc \<rparr>) d2 = (None, d)"
    by (simp add: startScanExecution_def)
  from history_update_accepted [OF this]
  have row: "history_status (history d) = final_status fc (length images)"
    "scannedImages (history d) = Some sc" "failedImages (history d) = Some fc"
    by simp_all
  from for_images_outcomes [OF loop] assms(4) d1
  have len: "length outs = length images"
    and sc: "sc = count_list outs Completed + count_list outs Threw_after_count"
    and fc: "fc = count_list outs Threw_before_count + count_list outs Threw_after_count"
    by simp_all
  have first: "\<exists>scannedCount failedCount.
            scannedImages (history d) = Some scannedCount \<and>
            failedImages (history d) = Some failedCount \<and>
            totalImages (history d) = length images \<and>
            (history_status (history d) = H_FAILED \<longleftrightarrow> failedCount = totalImages (history d)) \<and>
            (history_status (history d) = H_PARTIAL \<longleftrightarrow>
               0 < failedCount \<and> failedCount < totalImages (history d)) \<and>
            (history_status (history d) = H_COMPLETED \<longleftrightarrow> failedCount = 0)"
    using ne t le row by (auto simp: final_status_def)
  have second: "Threw_after_count \<notin> set outs \<longrightarrow>
            scannedImages (history d) = Some (count_list outs Completed) \<and>
            failedImages (history d) = Some (count_list outs Threw_before_count)"
    using row sc fc by (simp add: count_list_0_iff)
  have third: "length images = 5 \<and> count_list outs Completed = 3 \<and>
          count_list outs Threw_before_count = 2 \<longrightarrow>
            history_status (history d) = H_PARTIAL \<and>
            scannedImages (history d) = Some 3 \<and> failedImages (history d) = Some 2"
    using row sc fc len count_outcomes [of outs] by (auto simp: final_status_def)
  from first second third show ?thesis by blast
qed

text \<open>
  Five targets; the creation of the scan of the second and of the fourth target is
  rejected (calls 5 and 11 of the task), so three \<^verbatim>\<open>try\<close> blocks complete and two throw
  before the count. The row ends \<^verbatim>\<open>PARTIAL\<close> with 3 and 2.
\<close>

theorem final_status_from_counters_witness:
  "started (POST (sample_POST_env (sample_scheduledScan True SPECIFIC)) ''schedule-1'') =
     Some (''history-1'', five_images) \<and>
   persisted (POST (sample_POST_env (sample_scheduledScan True SPECIFIC)) ''schedule-1'') =
     Some (sample_history 5) \<and>
   fst (startScanExecution (sample_task_env (rejected_calls [5, 11])) ''history-1'' five_images
          (initial_store (sample_history 5))) = None \<and>
   outcomes (sample_task_env (rejected_calls [5, 11])) ''history-1'' five_images (0, 0)
     (snd (scheduledScanHistory_update (sample_task_env (rejected_calls [5, 11])) ''history-1''
             (\<lambda>h. h\<lparr> history_status := H_RUNNING \<rparr>) (initial_store (sample_history 5)))) =
     [Completed, Threw_before_count, Completed, Threw_before_count, Completed] \<and>
   history_status (history (snd (startScanExecution (sample_task_env (rejected_calls [5, 11]))
     ''history-1'' five_images (initial_store (sample_history 5))))) = H_PARTIAL \<and>
   scannedImages (history (snd (startScanExecution (sample_task_env (rejected_calls [5, 11]))
     ''history-1'' five_images (initial_store (sample_history 5))))) = Some 3 \<and>
   failedImages (history (snd (startScanExecution (sample_task_env (rejected_calls [5, 11]))
     ''history-1'' five_images (initial_store (sample_history 5))))) = Some 2"
proof -
  let ?env = "sample_task_env (rejected_calls [5, 11])"
  let ?run = "startScanExecution ?env ''history-1'' five_images (initial_store (sample_history 5))"
  let ?outs = "outcomes ?env ''history-1'' five_images (0, 0)
     (snd (scheduledScanHistory_update ?env ''history-1''
             (\<lambda>h. h\<lparr> history_status := H_RUNNING \<rparr>) (initial_store (sample_history 5))))"
  have s: "started (POST (sample_POST_env (sample_scheduledScan True SPECIFIC)) ''schedule-1'') =
             Some (''history-1'', five_images)"
    and p: "persisted (POST (sample_POST_env (sample_scheduledScan True SPECIFIC)) ''schedule-1'') =
             Some (sample_history 5)"
    by (simp_all add: POST_def imagesToScan_def batch_sample_defs Let_def)
  have f: "fst ?run = None"
    by (simp add: batch_defs batch_sample_defs)
  have o: "?outs = [Completed, Threw_before_count, Completed, Threw_before_count, Completed]"
    by (simp add: batch_defs batch_sample_defs target_outcome_of_def)
  from f have r: "?run = (None, snd ?run)" by (metis prod.collapse)
  have len: "length five_images = 5" by (simp add: five_images_def)
  have counts: "count_list ?outs Completed = 3" "count_list ?outs Threw_before_count = 2"
    unfolding o by simp_all
  from final_status_from_counters [OF s p r refl] len counts
  have "history_status (history (snd ?run)) = H_PARTIAL \<and>
        scannedImages (history (snd ?run)) = Some 3 \<and>
        failedImages (history (snd ?run)) = Some 2"
    by blast
  with s p f o show ?thesis by blast
qed

text \<open>
  C3. One target, and the only rejected call is the update of the progress counters
  that follows \<^verbatim>\<open>scannedCount++\<close> (call 4 of the task): the \<^verbatim>\<open>catch\<close> block then
  counts the same target in \<^verbatim>\<open>failedCount\<close> too. After the one iteration the counters
  are (1, 1), the result row of the target is \<^verbatim>\<open>SUCCESS\<close>, and the final row has
  \<^verbatim>\<open>totalImages = 1\<close>, \<^verbatim>\<open>scannedImages = 1\<close>, \<^verbatim>\<open>failedImages = 1\<close> and status
  \<^verbatim>\<open>FAILED\<close>: the sum of the counters exceeds the number of targets.
\<close>

theorem counters_exceed_total:
  "(let env = sample_task_env (rejected_calls [4]);
        nginx = sample_image ''nginx'' ''1.25'';
        d1 = snd (scheduledScanHistory_update env ''history-1''
                    (\<lambda>h. h\<lparr> history_status := H_RUNNING \<rparr>) (initial_store (sample_history 1)));
        d = snd (startScanExecution env ''history-1'' [nginx] (initial_store (sample_history 1)))
    in fst (loop_body env ''history-1'' nginx (0, 0) d1) = Inr (1, 1) \<and>
       map result_status (results d) = [''SUCCESS''] \<and>
       totalImages (history d) = 1 \<and>
       scannedImages (history d) = Some 1 \<and> failedImages (history d) = Some 1 \<and>
       history_status (history d) = H_FAILED)"
  by (simp add: batch_defs batch_sample_defs)

text \<open>
  An enabled schedule in mode \<^verbatim>\<open>REPOSITORY\<close> is answered with status 501, which is
  not a client error.
\<close>

theorem unimplemented_mode_counterexample:
  "scheduledScan_findUnique (sample_POST_env (sample_scheduledScan True REPOSITORY)) ''schedule-1'' =
     Inr (Some (sample_scheduledScan True REPOSITORY)) \<and>
   enabled (sample_scheduledScan True REPOSITORY) \<and>
   imageSelectionMode (sample_scheduledScan True REPOSITORY) = REPOSITORY \<and>
   status_code (response (POST (sample_POST_env (sample_scheduledScan True REPOSITORY))
     ''schedule-1'')) = 501 \<and>
   \<not> client_error (status_code (response (POST (sample_POST_env
     (sample_scheduledScan True REPOSITORY)) ''schedule-1'')))"
  by (simp add: POST_def imagesToScan_def json_error_def client_error_def batch_sample_defs)

text \<open>
  C6, as the handler has it. For a schedule that exists: when it is disabled the
  answer is 400 \<open>Scheduled scan is disabled\<close>; when it is enabled and the selection
  leaves no image the answer is 400 \<open>No images found to scan\<close>, and a \<^verbatim>\<open>PATTERN\<close>
  whose expression matches no \<^verbatim>\<open>name:tag\<close> leaves no image; when it is enabled and
  in mode \<^verbatim>\<open>REPOSITORY\<close> the answer is 501 \<open>Repository-based selection not yet
  implemented\<close>. In all of them no history row is persisted and no execution is
  started. 400 is a client error, 501 is not.
\<close>

theorem POST_rejections:
  assumes "scheduledScan_findUnique env params_id = Inr (Some scheduledScan)"
  shows "(\<not> enabled scheduledScan \<longrightarrow>
            POST env params_id =
              \<lparr> response = \<lparr> status_code = 400, body = Error_body ''Scheduled scan is disabled'' \<rparr>,
                persisted = None, started = None \<rparr>) \<and>
         (enabled scheduledScan \<and> imagesToScan env scheduledScan = Inr (Inr []) \<longrightarrow>
            POST env params_id =
              \<lparr> response = \<lparr> status_code = 400, body = Error_body ''No images found to scan'' \<rparr>,
                persisted = None, started = None \<rparr>) \<and>
         (imageSelectionMode scheduledScan = PATTERN \<and> imagePattern scheduledScan = Some pattern \<and>
          pattern \<noteq> [] \<and> new_RegExp env pattern = Some test \<and>
          image_findMany env = Inr allImages \<and>
          (\<forall>img \<in> set allImages. \<not> test (image_name img @ '':'' @ image_tag img)) \<longrightarrow>
            imagesToScan env scheduledScan = Inr (Inr [])) \<and>
         (enabled scheduledScan \<and> imageSelectionMode scheduledScan = REPOSITORY \<longrightarrow>
            POST env params_id =
              \<lparr> response = \<lparr> status_code = 501,
                             body = Error_body ''Repository-based selection not yet implemented'' \<rparr>,
                persisted = None, started = None \<rparr>) \<and>
         client_error 400 \<and> \<not> client_error 501"
  using assms
  by (auto simp: POST_def imagesToScan_def json_error_def client_error_def Let_def
                 filter_empty_conv)

text \<open>
  The sample schedule disabled, with a pattern that matches none of the five images, and
  in mode \<^verbatim>\<open>REPOSITORY\<close>.
\<close>

theorem POST_rejections_witness:
  "POST (sample_POST_env (sample_scheduledScan False SPECIFIC)) ''schedule-1'' =
     \<lparr> response = \<lparr> status_code = 400, body = Error_body ''Scheduled scan is disabled'' \<rparr>,
       persisted = None, started = None \<rparr> \<and>
   imagesToScan (sample_POST_env (sample_scheduledScan True PATTERN))
     (sample_scheduledScan True PATTERN) = Inr (Inr []) \<and>
   POST (sample_POST_env (sample_scheduledScan True PATTERN)) ''schedule-1'' =
     \<lparr> response = \<lparr> status_code = 400, body = Error_body ''No images found to scan'' \<rparr>,
       persisted = None, started = None \<rparr> \<and>
   POST (sample_POST_env (sample_scheduledScan True REPOSITORY)) ''schedule-1'' =
     \<lparr> response = \<lparr> status_code = 501,
                    body = Error_body ''Repository-based selection not yet implemented'' \<rparr>,
       persisted = None, started = None \<rparr>"
proof -
  have found: "scheduledScan_findUnique (sample_POST_env scan) ''schedule-1'' = Inr (Some scan)"
    for scan
    by (simp add: sample_POST_env_def)
  have off: "\<not> enabled (sample_scheduledScan False SPECIFIC)"
    and on: "enabled (sample_scheduledScan True mode)"
    and mode: "imageSelectionMode (sample_scheduledScan True mode) = mode" for mode
    by (simp_all add: sample_scheduledScan_def)
  have pat: "imagePattern (sample_scheduledScan True PATTERN) = Some ''^mysql''"
    "new_RegExp (sample_POST_env (sample_scheduledScan True PATTERN)) ''^mysql'' =
       Some (\<lambda>s. take 5 s = ''mysql'')"
    "image_findMany (sample_POST_env (sample_scheduledScan True PATTERN)) = Inr five_images"
    "\<forall>img \<in> set five_images. \<not> take 5 (image_name img @ '':'' @ image_tag img) = ''mysql''"
    by (simp_all add: batch_sample_defs)
  note r = POST_rejections [OF found]
  from r [of "sample_scheduledScan False SPECIFIC"] off
  have a: "POST (sample_POST_env (sample_scheduledScan False SPECIFIC)) ''schedule-1'' =
     \<lparr> response = \<lparr> status_code = 400, body = Error_body ''Scheduled scan is disabled'' \<rparr>,
       persisted = None, started = None \<rparr>"
    by simp
  from r [of "sample_scheduledScan True PATTERN" "''^mysql''" "\<lambda>s. take 5 s = ''mysql''"
             five_images] on mode pat
  have b: "imagesToScan (sample_POST_env (sample_scheduledScan True PATTERN))
             (sample_scheduledScan True PATTERN) = Inr (Inr [])"
    by simp
  with r [of "sample_scheduledScan True PATTERN"] on
  have c: "POST (sample_POST_env (sample_scheduledScan True PATTERN)) ''schedule-1'' =
     \<lparr> response = \<lparr> status_code = 400, body = Error_body ''No images found to scan'' \<rparr>,
       persisted = None, started = None \<rparr>"
    by simp
  from r [of "sample_scheduledScan True REPOSITORY"] on mode
  have d: "POST (sample_POST_env (sample_scheduledScan True REPOSITORY)) ''schedule-1'' =
     \<lparr> response = \<lparr> status_code = 501,
                    body = Error_body ''Repository-based selection not yet implemented'' \<rparr>,
       persisted = None, started = None \<rparr>"
    by simp
  from a b c d show ?thesis by simp
qed

text \<open>
  A batch left \<^verbatim>\<open>RUNNING\<close>, and a batch aborted by one target. First: one target, and the
  database rejects every call from call 5 on; the last update of the task is rejected, so
  is the update of the rejection handler, and the row stays \<^verbatim>\<open>RUNNING\<close> with no message
  and no completion time. Second: five targets, calls 1 and 2 rejected; the first
  target's scan creation fails, the update inside \<^verbatim>\<open>catch\<close> fails too, the loop is left
  after three calls and no other target is ever touched.
\<close>

theorem pipeline_fault_counterexample:
  "(let env = sample_task_env (database_lost_from 5);
        nginx = sample_image ''nginx'' ''1.25'';
        d0 = initial_store (sample_history 1)
    in fst (startScanExecution env ''history-1'' [nginx] d0) = Some ''Cannot reach database server'' \<and>
       history_status (history (background_task env ''history-1'' [nginx] d0)) = H_RUNNING \<and>
       errorMessage (history (background_task env ''history-1'' [nginx] d0)) = None \<and>
       completedAt (history (background_task env ''history-1'' [nginx] d0)) = None) \<and>
   (let env = sample_task_env (rejected_calls [1, 2]);
        d0 = initial_store (sample_history 5);
        d1 = snd (scheduledScanHistory_update env ''history-1''
                    (\<lambda>h. h\<lparr> history_status := H_RUNNING \<rparr>) d0)
    in fst (for_images env ''history-1'' five_images (0, 0) d1) =
         Inl ''Timed out fetching a new connection'' \<and>
       calls (snd (for_images env ''history-1'' five_images (0, 0) d1)) = 3 \<and>
       scans (background_task env ''history-1'' five_images d0) = [] \<and>
       calls (background_task env ''history-1'' five_images d0) = 4)"
  by (simp add: batch_defs batch_sample_defs)

text \<open>
  C7, as the task has it. When \<^verbatim>\<open>startScanExecution\<close> is rejected with a message, the
  handler issues one update; if Prisma accepts it, the row is \<^verbatim>\<open>FAILED\<close> with that
  message and a completion time; if Prisma rejects it, that is only logged and the row
  stays as the task left it. When the \<^verbatim>\<open>try\<close> block of a target throws and the update
  of \<^verbatim>\<open>failedImages\<close> inside \<^verbatim>\<open>catch\<close> is accepted, the target is counted as failed
  and the loop goes on with the remaining targets.
\<close>

theorem pipeline_fault_handling:
  assumes "history_id (history d) = historyId"
  shows "(startScanExecution env historyId images d = (Some message, d') \<and>
          rejects env (calls d') = None \<longrightarrow>
            history_status (history (background_task env historyId images d)) = H_FAILED \<and>
            errorMessage (history (background_task env historyId images d)) = Some message \<and>
            completedAt (history (background_task env historyId images d)) =
              Some (new_Date env (calls d'))) \<and>
         (startScanExecution env historyId images d = (Some message, d') \<and>
          rejects env (calls d') \<noteq> None \<longrightarrow>
            history (background_task env historyId images d) = history d') \<and>
         (try_block env historyId img (fst counts) (snd counts) d = ((Some err, scannedCount), d1) \<and>
          rejects env (calls d1) = None \<longrightarrow>
            (\<exists>d2. loop_body env historyId img counts d = (Inr (scannedCount, Suc (snd counts)), d2) \<and>
                  failedImages (history d2) = Some (Suc (snd counts)) \<and>
                  for_images env historyId (img # images') counts d =
                    for_images env historyId images' (scannedCount, Suc (snd counts)) d2))"
proof -
  have a: "history_id (history d') = historyId"
    if "startScanExecution env historyId images d = (Some message, d')"
    using startScanExecution_same_row [OF that] assms by (simp add: same_row_def)
  have b: "history_id (history d1) = historyId"
    if "try_block env historyId img (fst counts) (snd counts) d = ((Some err, scannedCount), d1)"
    using try_block_same_row [OF that] assms by (simp add: same_row_def)
  have handled: "startScanExecution env historyId images d = (Some message, d') \<and>
          rejects env (calls d') = None \<longrightarrow>
            history_status (history (background_task env historyId images d)) = H_FAILED \<and>
            errorMessage (history (background_task env historyId images d)) = Some message \<and>
            completedAt (history (background_task env historyId images d)) =
              Some (new_Date env (calls d'))"
    using a by (auto simp: background_task_def scheduledScanHistory_update_def prisma_def)
  have logged: "startScanExecution env historyId images d = (Some message, d') \<and>
          rejects env (calls d') \<noteq> None \<longrightarrow>
            history (background_task env historyId images d) = history d'"
    using a by (auto simp: background_task_def scheduledScanHistory_update_def prisma_def)
  have counted: "try_block env historyId img (fst counts) (snd counts) d =
            ((Some err, scannedCount), d1) \<and> rejects env (calls d1) = None \<longrightarrow>
            (\<exists>d2. loop_body env historyId img counts d = (Inr (scannedCount, Suc (snd counts)), d2) \<and>
                  failedImages (history d2) = Some (Suc (snd counts)) \<and>
                  for_images env historyId (img # images') counts d =
                    for_images env historyId images' (scannedCount, Suc (snd counts)) d2)"
    using b
    by (auto simp: scheduledScanHistory_update_def prisma_def loop_body_def Let_def)
  from handled logged counted show ?thesis by blast
qed

text \<open>
  One target whose last update is rejected (call 5) while the handler's update is
  accepted; and a first target whose scan creation is rejected (call 0 of a loop that
  starts on the fresh store) while the update in \<^verbatim>\<open>catch\<close> is accepted.
\<close>

theorem pipeline_fault_handling_witness:
  "(let env = sample_task_env (rejected_calls [5]);
        nginx = sample_image ''nginx'' ''1.25'';
        d0 = initial_store (sample_history 1)
    in history_id (history d0) = ''history-1'' \<and>
       fst (startScanExecution env ''history-1'' [nginx] d0) =
         Some ''Timed out fetching a new connection'' \<and>
       rejects env (calls (snd (startScanExecution env ''history-1'' [nginx] d0))) = None \<and>
       history_status (history (background_task env ''history-1'' [nginx] d0)) = H_FAILED \<and>
       errorMessage (history (background_task env ''history-1'' [nginx] d0)) =
         Some ''Timed out fetching a new connection'' \<and>
       completedAt (history (background_task env ''history-1'' [nginx] d0)) = Some 1704067200600) \<and>
   (let env = sample_task_env (rejected_calls [0]);
        nginx = sample_image ''nginx'' ''1.25'';
        d0 = initial_store (sample_history 5)
    in fst (fst (try_block env ''history-1'' nginx 0 0 d0)) =
         Some ''Timed out fetching a new connection'' \<and>
       rejects env (calls (snd (try_block env ''history-1'' nginx 0 0 d0))) = None \<and>
       fst (loop_body env ''history-1'' nginx (0, 0) d0) = Inr (0, 1) \<and>
       for_images env ''history-1'' five_images (0, 0) d0 =
         for_images env ''history-1'' (tl five_images) (0, 1)
           (snd (loop_body env ''history-1'' nginx (0, 0) d0)))"
proof -
  let ?env = "sample_task_env (rejected_calls [5])"
  let ?d0 = "initial_store (sample_history 1)"
  let ?nginx = "sample_image ''nginx'' ''1.25''"
  let ?run = "startScanExecution ?env ''history-1'' [?nginx] ?d0"
  have h: "history_id (history ?d0) = ''history-1''"
    by (simp add: initial_store_def sample_history_def)
  have f: "fst ?run = Some ''Timed out fetching a new connection''"
    and c: "calls (snd ?run) = 6"
    by (simp_all add: batch_defs batch_sample_defs)
  from f have r: "?run = (Some ''Timed out fetching a new connection'', snd ?run)"
    by (metis prod.collapse)
  have ok: "rejects ?env (calls (snd ?run)) = None"
    and t: "new_Date ?env (calls (snd ?run)) = 1704067200600"
    unfolding c by (simp_all add: sample_task_env_def rejected_calls_def)
  from pipeline_fault_handling [OF h, of ?env "[?nginx]"
      "''Timed out fetching a new connection''" "snd ?run"] r ok t h f
  have first: "history_status (history (background_task ?env ''history-1'' [?nginx] ?d0)) = H_FAILED \<and>
       errorMessage (history (background_task ?env ''history-1'' [?nginx] ?d0)) =
         Some ''Timed out fetching a new connection'' \<and>
       completedAt (history (background_task ?env ''history-1'' [?nginx] ?d0)) = Some 1704067200600"
    by simp
  let ?env' = "sample_task_env (rejected_calls [0])"
  let ?d5 = "initial_store (sample_history 5)"
  let ?attempt = "try_block ?env' ''history-1'' ?nginx 0 0 ?d5"
  have h5: "history_id (history ?d5) = ''history-1''"
    by (simp add: initial_store_def sample_history_def)
  have tf: "?attempt = ((Some ''Timed out fetching a new connection'', 0), snd ?attempt)"
    and tc: "calls (snd ?attempt) = 1"
    and tf': "fst (fst ?attempt) = Some ''Timed out fetching a new connection''"
    by (simp_all add: batch_defs batch_sample_defs)
  have ok': "rejects ?env' (calls (snd ?attempt)) = None"
    unfolding tc by (simp add: sample_task_env_def rejected_calls_def)
  have five: "five_images = ?nginx # tl five_images"
    by (simp add: five_images_def)
  note third = pipeline_fault_handling [OF h5, of ?env' _ _ _ ?nginx "(0, 0)"
      "''Timed out fetching a new connection''" 0 "snd ?attempt" "tl five_images",
      unfolded fst_conv snd_conv, THEN conjunct2, THEN conjunct2, rule_format, OF conjI, OF tf ok']
  then obtain d2 where
    "loop_body ?env' ''history-1'' ?nginx (0, 0) ?d5 = (Inr (0, Suc 0), d2)"
    "for_images ?env' ''history-1'' (?nginx # tl five_images) (0, 0) ?d5 =
       for_images ?env' ''history-1'' (tl five_images) (0, Suc 0) d2"
    by blast
  then have second: "fst (loop_body ?env' ''history-1'' ?nginx (0, 0) ?d5) = Inr (0, 1) \<and>
       for_images ?env' ''history-1'' five_images (0, 0) ?d5 =
         for_images ?env' ''history-1'' (tl five_images) (0, 1)
           (snd (loop_body ?env' ''history-1'' ?nginx (0, 0) ?d5))"
    using five by (metis One_nat_def fst_conv snd_conv)
  from h f ok first tf' ok' second show ?thesis
    by (simp add: Let_def)
qed

section \<open>Properties of the connection manager\<close>

text \<open>Lookups in the object store, and handles that stay fresh.\<close>

lemma lookup_map_entry:
  "DAList.lookup (DAList.map_entry a f m) k =
     (if k = a then map_option f (DAList.lookup m a) else DAList.lookup m k)"
  by transfer (auto simp: map_of_map_entry split: option.splits)

lemma handles_ok_filter: "handles_ok n xs \<Longrightarrow> handles_ok n (filter Q xs)"
  by (auto simp: handles_ok_def list_all_iff distinct_map_filter)

lemma handles_ok_Suc: "handles_ok n xs \<Longrightarrow> handles_ok (Suc n) xs"
  by (auto simp: handles_ok_def list_all_iff)

lemma handles_ok_append: "handles_ok n xs \<Longrightarrow> handles_ok (Suc n) (xs @ [(n, v)])"
  by (auto simp: handles_ok_def list_all_iff)

lemma handles_ok_map_of: "handles_ok n xs \<Longrightarrow> map_of (xs @ [(n, v)]) n = Some v"
  by (auto simp: handles_ok_def list_all_iff map_add_Some_iff map_of_eq_None_iff)

lemma filter_filter_empty: "filter P xs = [] \<Longrightarrow> filter (\<lambda>x. Q x \<and> P x) xs = []"
  by (auto simp: filter_empty_conv)

lemma map_of_single_filter:
  assumes "distinct (map fst xs)" and "filter P xs = [(h, v)]"
  shows "map_of xs h = Some v"
proof -
  from assms(2) have "(h, v) \<in> set (filter P xs)" by simp
  then have "(h, v) \<in> set xs" by simp
  with assms(1) show ?thesis by simp
qed

lemma filter_filter_single:
  assumes "filter P xs = [(s, v)]"
  shows "filter (\<lambda>x. fst x \<noteq> s \<and> P x) xs = []"
proof -
  have "filter (\<lambda>x. fst x \<noteq> s \<and> P x) xs = filter (\<lambda>p. fst p \<noteq> s) (filter P xs)"
    by (simp add: conj_commute)
  with assms show ?thesis by simp
qed

lemma in_flight_facts:
  assumes "attempt_in_flight m rid opts k"
  obtains a c s where
    "DAList.lookup (connections m) rid = Some a" "DAList.lookup (objects m) a = Some c"
    "retryCount c = k" "heartbeatTimer c = None" "eventSource c = Some s"
    "case reconnectTimer c of None \<Rightarrow> True | Some t \<Rightarrow> map_of (timers m) t = None"
    "sources_for m rid = [(s, \<lparr> es_requestId = rid, es_options = opts, es_connection = a \<rparr>)]"
    "map_of (open_sources m) s = Some \<lparr> es_requestId = rid, es_options = opts, es_connection = a \<rparr>"
    "timers_for m rid = []" "fresh_handles m"
proof -
  from assms obtain a c s where f:
    "DAList.lookup (connections m) rid = Some a" "DAList.lookup (objects m) a = Some c"
    "retryCount c = k" "heartbeatTimer c = None" "eventSource c = Some s"
    "case reconnectTimer c of None \<Rightarrow> True | Some t \<Rightarrow> map_of (timers m) t = None"
    "sources_for m rid = [(s, \<lparr> es_requestId = rid, es_options = opts, es_connection = a \<rparr>)]"
    "timers_for m rid = []" "fresh_handles m"
    by (auto simp: attempt_in_flight_def get_connection_def split: option.splits)
  from f(9) have "distinct (map fst (open_sources m))"
    by (simp add: fresh_handles_def handles_ok_def)
  then have "map_of (open_sources m) s =
               Some \<lparr> es_requestId = rid, es_options = opts, es_connection = a \<rparr>"
    using f(7) unfolding sources_for_def by (rule map_of_single_filter)
  with f that show ?thesis by blast
qed

lemma may_retry_iff: "may_retry opts k \<longleftrightarrow> k < retries opts"
  by (auto simp: may_retry_def retries_def split: option.splits)

lemma transport_fails_retry:
  assumes "attempt_in_flight m rid opts k" and "may_retry opts k"
  shows "retry_scheduled (transport_fails br rid m) rid opts (Suc k)"
proof -
  from assms(1) obtain a c s where f:
    "DAList.lookup (connections m) rid = Some a" "DAList.lookup (objects m) a = Some c"
    "retryCount c = k" "heartbeatTimer c = None" "eventSource c = Some s"
    "case reconnectTimer c of None \<Rightarrow> True | Some t \<Rightarrow> map_of (timers m) t = None"
    "sources_for m rid = [(s, \<lparr> es_requestId = rid, es_options = opts, es_connection = a \<rparr>)]"
    "map_of (open_sources m) s = Some \<lparr> es_requestId = rid, es_options = opts, es_connection = a \<rparr>"
    "timers_for m rid = []" "fresh_handles m"
    by (rule in_flight_facts)
  show ?thesis
    using f assms(2)
    by (cases "reconnectTimer c")
       (simp_all add: retry_scheduled_def manager_defs lookup_map_entry timers_for_def
          sources_for_def fresh_handles_def filter_filter_empty filter_filter_single
          handles_ok_filter handles_ok_Suc handles_ok_append)
qed

lemma map_of_filter_handle: "map_of (filter (\<lambda>p. fst p \<noteq> t) xs) t = None"
  by (auto simp: map_of_eq_None_iff)

lemma scheduled_facts:
  assumes "retry_scheduled m rid opts k"
  obtains a c t where
    "DAList.lookup (connections m) rid = Some a" "DAList.lookup (objects m) a = Some c"
    "retryCount c = k" "conn_status c = Reconnecting" "eventSource c = None"
    "heartbeatTimer c = None" "reconnectTimer c = Some t"
    "timers_for m rid =
       [(t, \<lparr> callback = Reconnect rid opts, delay = Some (reconnect_delay opts k) \<rparr>)]"
    "map_of (timers m) t =
       Some \<lparr> callback = Reconnect rid opts, delay = Some (reconnect_delay opts k) \<rparr>"
    "sources_for m rid = []" "fresh_handles m"
proof -
  from assms obtain a c t where f:
    "DAList.lookup (connections m) rid = Some a" "DAList.lookup (objects m) a = Some c"
    "retryCount c = k" "conn_status c = Reconnecting" "eventSource c = None"
    "heartbeatTimer c = None" "reconnectTimer c = Some t"
    "timers_for m rid =
       [(t, \<lparr> callback = Reconnect rid opts, delay = Some (reconnect_delay opts k) \<rparr>)]"
    "sources_for m rid = []" "fresh_handles m"
    by (auto simp: retry_scheduled_def get_connection_def split: option.splits)
  from f(10) have "distinct (map fst (timers m))"
    by (simp add: fresh_handles_def handles_ok_def)
  then have "map_of (timers m) t =
               Some \<lparr> callback = Reconnect rid opts, delay = Some (reconnect_delay opts k) \<rparr>"
    using f(8) unfolding timers_for_def by (rule map_of_single_filter)
  with f that show ?thesis by blast
qed

lemma reconnect_due_attempt:
  assumes "retry_scheduled m rid opts k" and "EventSource_constructs br"
  shows "attempt_in_flight (reconnect_due br rid m) rid opts k"
proof -
  from assms(1) obtain a c t where f:
    "DAList.lookup (connections m) rid = Some a" "DAList.lookup (objects m) a = Some c"
    "retryCount c = k" "conn_status c = Reconnecting" "eventSource c = None"
    "heartbeatTimer c = None" "reconnectTimer c = Some t"
    "timers_for m rid =
       [(t, \<lparr> callback = Reconnect rid opts, delay = Some (reconnect_delay opts k) \<rparr>)]"
    "map_of (timers m) t =
       Some \<lparr> callback = Reconnect rid opts, delay = Some (reconnect_delay opts k) \<rparr>"
    "sources_for m rid = []" "fresh_handles m"
    by (rule scheduled_facts)
  show ?thesis
    using f assms(2)
    by (simp add: attempt_in_flight_def manager_defs lookup_map_entry timers_for_def
          sources_for_def fresh_handles_def filter_filter_single map_of_filter_handle
          handles_ok_filter handles_ok_Suc handles_ok_append)
qed

text \<open>Where the constructor throws, the reconnect falling due is the next failure.\<close>

lemma reconnect_due_throws_retry:
  assumes "retry_scheduled m rid opts k" and "\<not> EventSource_constructs br"
    and "may_retry opts k"
  shows "retry_scheduled (reconnect_due br rid m) rid opts (Suc k)"
proof -
  from assms(1) obtain a c t where f:
    "DAList.lookup (connections m) rid = Some a" "DAList.lookup (objects m) a = Some c"
    "retryCount c = k" "conn_status c = Reconnecting" "eventSource c = None"
    "heartbeatTimer c = None" "reconnectTimer c = Some t"
    "timers_for m rid =
       [(t, \<lparr> callback = Reconnect rid opts, delay = Some (reconnect_delay opts k) \<rparr>)]"
    "map_of (timers m) t =
       Some \<lparr> callback = Reconnect rid opts, delay = Some (reconnect_delay opts k) \<rparr>"
    "sources_for m rid = []" "fresh_handles m"
    by (rule scheduled_facts)
  show ?thesis
    using f assms(2,3)
    by (simp add: retry_scheduled_def manager_defs lookup_map_entry timers_for_def
          sources_for_def fresh_handles_def filter_filter_single map_of_filter_handle
          handles_ok_filter handles_ok_Suc handles_ok_append)
qed

lemma reconnect_due_throws_gives_up:
  assumes "retry_scheduled m rid opts k" and "\<not> EventSource_constructs br"
    and "\<not> may_retry opts k"
  shows "gave_up (reconnect_due br rid m) rid"
proof -
  from assms(1) obtain a c t where f:
    "DAList.lookup (connections m) rid = Some a" "DAList.lookup (objects m) a = Some c"
    "retryCount c = k" "conn_status c = Reconnecting" "eventSource c = None"
    "heartbeatTimer c = None" "reconnectTimer c = Some t"
    "timers_for m rid =
       [(t, \<lparr> callback = Reconnect rid opts, delay = Some (reconnect_delay opts k) \<rparr>)]"
    "map_of (timers m) t =
       Some \<lparr> callback = Reconnect rid opts, delay = Some (reconnect_delay opts k) \<rparr>"
    "sources_for m rid = []" "fresh_handles m"
    by (rule scheduled_facts)
  show ?thesis
    using f assms(2,3)
    by (simp add: gave_up_def manager_defs lookup_map_entry timers_for_def
          sources_for_def fresh_handles_def filter_filter_single map_of_filter_handle
          handles_ok_filter handles_ok_Suc handles_ok_append)
qed

lemma transport_fails_scheduled:
  assumes "retry_scheduled m rid opts k"
  shows "transport_fails br rid m = m"
  using assms
  by (auto simp: retry_scheduled_def transport_fails_def split: option.splits)

lemma transport_fails_gave_up:
  assumes "gave_up m rid"
  shows "transport_fails br rid m = m"
  using assms
  by (auto simp: gave_up_def transport_fails_def split: option.splits)

lemma transport_fails_gives_up:
  assumes "attempt_in_flight m rid opts k" and "\<not> may_retry opts k"
  shows "gave_up (transport_fails br rid m) rid"
proof -
  from assms(1) obtain a c s where f:
    "DAList.lookup (connections m) rid = Some a" "DAList.lookup (objects m) a = Some c"
    "retryCount c = k" "heartbeatTimer c = None" "eventSource c = Some s"
    "case reconnectTimer c of None \<Rightarrow> True | Some t \<Rightarrow> map_of (timers m) t = None"
    "sources_for m rid = [(s, \<lparr> es_requestId = rid, es_options = opts, es_connection = a \<rparr>)]"
    "map_of (open_sources m) s = Some \<lparr> es_requestId = rid, es_options = opts, es_connection = a \<rparr>"
    "timers_for m rid = []" "fresh_handles m"
    by (rule in_flight_facts)
  show ?thesis
    using f assms(2)
    by (cases "reconnectTimer c")
       (simp_all add: gave_up_def manager_defs lookup_map_entry timers_for_def
          sources_for_def fresh_handles_def filter_filter_empty filter_filter_single
          handles_ok_filter handles_ok_Suc handles_ok_append)
qed

text \<open>\<^verbatim>\<open>connect\<close> on an id for which nothing is pending or open.\<close>

lemma connect_attempt:
  assumes "fresh_handles m" and "timers_for m rid = []" and "sources_for m rid = []"
    and "getConnectionStatus m rid \<noteq> Some Connected" and "EventSource_constructs br"
  shows "attempt_in_flight (snd (connect br rid options m)) rid
           (merge_options default_options options) 0"
proof -
  from assms(4) have nc: "\<not> (case get_connection m rid of
            None \<Rightarrow> False
          | Some (a, existing) \<Rightarrow> conn_status existing = Connected)"
    by (auto simp: getConnectionStatus_def split: option.splits)
  show ?thesis
    using assms(1,2,3,5) nc
    by (simp add: connect_def attempt_in_flight_def manager_defs lookup_map_entry
          DAList.lookup_update timers_for_def sources_for_def fresh_handles_def
          handles_ok_Suc handles_ok_append)
qed

lemma connect_throws_retry:
  assumes "fresh_handles m" and "timers_for m rid = []" and "sources_for m rid = []"
    and "getConnectionStatus m rid \<noteq> Some Connected" and "\<not> EventSource_constructs br"
    and "may_retry (merge_options default_options options) 0"
  shows "retry_scheduled (snd (connect br rid options m)) rid
           (merge_options default_options options) 1"
proof -
  from assms(4) have nc: "\<not> (case get_connection m rid of
            None \<Rightarrow> False
          | Some (a, existing) \<Rightarrow> conn_status existing = Connected)"
    by (auto simp: getConnectionStatus_def split: option.splits)
  show ?thesis
    using assms(1,2,3,5,6) nc
    by (simp add: connect_def retry_scheduled_def manager_defs lookup_map_entry
          DAList.lookup_update timers_for_def sources_for_def fresh_handles_def
          handles_ok_Suc handles_ok_append)
qed

lemma connect_throws_gives_up:
  assumes "fresh_handles m" and "timers_for m rid = []" and "sources_for m rid = []"
    and "getConnectionStatus m rid \<noteq> Some Connected" and "\<not> EventSource_constructs br"
    and "\<not> may_retry (merge_options default_options options) 0"
  shows "gave_up (snd (connect br rid options m)) rid"
proof -
  from assms(4) have nc: "\<not> (case get_connection m rid of
            None \<Rightarrow> False
          | Some (a, existing) \<Rightarrow> conn_status existing = Connected)"
    by (auto simp: getConnectionStatus_def split: option.splits)
  show ?thesis
    using assms(1,2,3,5,6) nc
    by (simp add: connect_def gave_up_def manager_defs lookup_map_entry
          DAList.lookup_update timers_for_def sources_for_def fresh_handles_def
          handles_ok_Suc handles_ok_append)
qed

text \<open>The first failure, and every further one.\<close>

lemma first_failure:
  assumes "fresh_handles m" and "timers_for m rid = []" and "sources_for m rid = []"
    and "getConnectionStatus m rid \<noteq> Some Connected"
    and "opts = merge_options default_options options"
    and "m1 = snd (connect br rid options m)"
  shows "if may_retry opts 0 then retry_scheduled (transport_fails br rid m1) rid opts 1
         else gave_up (transport_fails br rid m1) rid"
proof (cases "EventSource_constructs br")
  case True
  with assms(1-4) have "attempt_in_flight m1 rid opts 0"
    unfolding assms(5,6) by (rule connect_attempt)
  then show ?thesis by (simp add: transport_fails_retry transport_fails_gives_up)
next
  case False
  show ?thesis
  proof (cases "may_retry opts 0")
    case True
    with assms(1-4) False have "retry_scheduled m1 rid opts 1"
      unfolding assms(5,6) by (intro connect_throws_retry)
    with True show ?thesis by (simp add: transport_fails_scheduled)
  next
    case nr: False
    with assms(1-4) False have "gave_up m1 rid"
      unfolding assms(5,6) by (intro connect_throws_gives_up)
    with nr show ?thesis by (simp add: transport_fails_gave_up)
  qed
qed

lemma next_failure:
  assumes "retry_scheduled m rid opts k"
  shows "if may_retry opts k
         then retry_scheduled (transport_fails br rid (reconnect_due br rid m)) rid opts (Suc k)
         else gave_up (transport_fails br rid (reconnect_due br rid m)) rid"
proof (cases "EventSource_constructs br")
  case True
  with assms have "attempt_in_flight (reconnect_due br rid m) rid opts k"
    by (rule reconnect_due_attempt)
  then show ?thesis by (simp add: transport_fails_retry transport_fails_gives_up)
next
  case False
  show ?thesis
  proof (cases "may_retry opts k")
    case True
    with assms False have "retry_scheduled (reconnect_due br rid m) rid opts (Suc k)"
      by (intro reconnect_due_throws_retry)
    with True show ?thesis by (simp add: transport_fails_scheduled)
  next
    case nr: False
    with assms False have "gave_up (reconnect_due br rid m) rid"
      by (intro reconnect_due_throws_gives_up)
    with nr show ?thesis by (simp add: transport_fails_gave_up)
  qed
qed

text \<open>The states along a run of failures, by induction on their number.\<close>

lemma failures_run:
  assumes "if may_retry opts 0 then retry_scheduled (transport_fails br rid m1) rid opts 1
           else gave_up (transport_fails br rid m1) rid"
  shows "1 \<le> k \<Longrightarrow> k \<le> retries opts \<Longrightarrow> retry_scheduled (failures br rid k m1) rid opts k"
proof (induction k)
  case 0
  then show ?case by simp
next
  case (Suc k)
  show ?case
  proof (cases k)
    case 0
    from Suc.prems have "may_retry opts 0" by (simp add: may_retry_iff)
    with assms 0 show ?thesis by simp
  next
    case (Suc j)
    with Suc.prems Suc.IH have "retry_scheduled (failures br rid k m1) rid opts k" by simp
    moreover from Suc.prems have "may_retry opts k" by (simp add: may_retry_iff)
    ultimately have
      "retry_scheduled (transport_fails br rid (reconnect_due br rid (failures br rid k m1)))
         rid opts (Suc k)"
      using next_failure [of "failures br rid k m1" rid opts k br] by simp
    with Suc show ?thesis by simp
  qed
qed

lemma failures_exhausted:
  assumes "if may_retry opts 0 then retry_scheduled (transport_fails br rid m1) rid opts 1
           else gave_up (transport_fails br rid m1) rid"
  shows "gave_up (failures br rid (Suc (retries opts)) m1) rid"
proof (cases "retries opts")
  case 0
  then have "\<not> may_retry opts 0" by (simp add: may_retry_iff)
  with assms 0 show ?thesis by simp
next
  case (Suc j)
  then have "retry_scheduled (failures br rid (retries opts) m1) rid opts (retries opts)"
    using failures_run [OF assms, of "retries opts"] by simp
  moreover have "\<not> may_retry opts (retries opts)" by (simp add: may_retry_iff)
  ultimately have
    "gave_up (transport_fails br rid
       (reconnect_due br rid (failures br rid (retries opts) m1))) rid"
    using next_failure [of "failures br rid (retries opts) m1" rid opts "retries opts" br]
    by simp
  with Suc show ?thesis by simp
qed

lemma quiet_iff:
  "quiet m rid \<longleftrightarrow>
     (\<forall>p \<in> set (timers m). timer_requestId (callback (snd p)) \<noteq> rid) \<and>
     (\<forall>p \<in> set (open_sources m). es_requestId (snd p) \<noteq> rid)"
  by (auto simp: quiet_def timers_for_def sources_for_def filter_empty_conv)

lemma quiet_handleConnectionError:
  "rid' \<noteq> rid \<Longrightarrow> quiet m rid \<Longrightarrow> quiet (handleConnectionError rid' options m) rid"
  by (auto simp: quiet_iff manager_defs split: option.splits)

lemma quiet_establishConnection:
  "rid' \<noteq> rid \<Longrightarrow> quiet m rid \<Longrightarrow> quiet (establishConnection br rid' options m) rid"
  by (auto simp: quiet_iff manager_defs split: option.splits)

lemma quiet_startHeartbeatTimer:
  "rid' \<noteq> rid \<Longrightarrow> quiet m rid \<Longrightarrow> quiet (startHeartbeatTimer rid' ms m) rid"
  by (auto simp: quiet_iff startHeartbeatTimer_def manager_defs split: option.splits)

lemma quiet_clearHeartbeatTimer:
  "quiet m rid \<Longrightarrow> quiet (clearHeartbeatTimer rid' m) rid"
  by (auto simp: quiet_iff manager_defs split: option.splits)

lemma quiet_assign: "quiet (assign a f m) rid = quiet m rid"
  by (simp add: quiet_iff assign_def)

lemma quiet_emit: "quiet (emit e m) rid = quiet m rid"
  by (simp add: quiet_iff emit_def)

lemma quiet_disconnect: "quiet m rid \<Longrightarrow> quiet (disconnect rid' m) rid"
  by (auto simp: quiet_iff disconnect_def manager_defs split: option.splits)

lemma quiet_fold:
  assumes "\<And>x m'. quiet m' rid \<Longrightarrow> quiet (f x m') rid" and "quiet m rid"
  shows "quiet (fold f xs m) rid"
  using assms(2) by (induction xs arbitrary: m) (simp_all add: assms(1))

lemma quiet_cleanup_sweep: "quiet m rid \<Longrightarrow> quiet (cleanup_sweep br m) rid"
  unfolding cleanup_sweep_def
  by (rule quiet_fold) (auto simp: quiet_disconnect split: option.splits)

lemma quiet_source:
  assumes "quiet m rid" and "map_of (open_sources m) s = Some src"
  shows "es_requestId src \<noteq> rid"
proof -
  from assms(2) have "(s, src) \<in> set (open_sources m)" by (rule map_of_SomeD)
  with assms(1) show ?thesis by (force simp: quiet_iff)
qed

lemma quiet_timer:
  assumes "quiet m rid" and "map_of (timers m) h = Some t"
  shows "timer_requestId (callback t) \<noteq> rid"
proof -
  from assms(2) have "(h, t) \<in> set (timers m)" by (rule map_of_SomeD)
  with assms(1) show ?thesis by (force simp: quiet_iff)
qed

lemma quiet_clearTimeout: "quiet m rid \<Longrightarrow> quiet (clearTimeout h m) rid"
  by (auto simp: quiet_iff clearTimeout_def)

lemma quiet_deliver:
  assumes "quiet m rid"
  shows "quiet (deliver br ev m) rid"
proof (cases ev)
  case (ES_open s)
  show ?thesis
  proof (cases "map_of (open_sources m) s")
    case None
    with ES_open assms show ?thesis by simp
  next
    case (Some src)
    with assms have "es_requestId src \<noteq> rid" by (rule quiet_source)
    with ES_open Some assms show ?thesis
      by (simp add: onopen_def Let_def quiet_startHeartbeatTimer emitStatusChange_def
            quiet_emit quiet_assign)
  qed
next
  case (ES_error s)
  show ?thesis
  proof (cases "map_of (open_sources m) s")
    case None
    with ES_error assms show ?thesis by simp
  next
    case (Some src)
    with assms have "es_requestId src \<noteq> rid" by (rule quiet_source)
    with ES_error Some assms show ?thesis
      by (simp add: onerror_def quiet_handleConnectionError)
  qed
next
  case (ES_message s msg)
  show ?thesis
  proof (cases "map_of (open_sources m) s")
    case None
    with ES_message assms show ?thesis by simp
  next
    case (Some src)
    with assms have "es_requestId src \<noteq> rid" by (rule quiet_source)
    with ES_message Some assms show ?thesis
      by (cases msg)
         (simp_all add: onmessage_def Let_def resetHeartbeatTimer_def quiet_startHeartbeatTimer
            quiet_clearHeartbeatTimer quiet_emit quiet_assign)
  qed
next
  case (Timer_fires h)
  show ?thesis
  proof (cases "map_of (timers m) h")
    case None
    with Timer_fires assms show ?thesis by simp
  next
    case (Some t)
    with assms have ne: "timer_requestId (callback t) \<noteq> rid" by (rule quiet_timer)
    from assms have "quiet (clearTimeout h m) rid" by (rule quiet_clearTimeout)
    with Timer_fires Some ne show ?thesis
      by (cases "callback t")
         (simp_all add: Let_def quiet_handleConnectionError quiet_establishConnection)
  qed
next
  case Cleanup_tick
  with assms show ?thesis by (simp add: quiet_cleanup_sweep)
qed

lemma quiet_events:
  "quiet m rid \<Longrightarrow> quiet (fold (\<lambda>e. deliver (fst e) (snd e)) evs m) rid"
  by (rule quiet_fold) (simp_all add: quiet_deliver)

lemmas manager_eval = connect_def onopen_def startHeartbeatTimer_def merge_options_def
  may_retry_def
  default_options_def new_SSEManager_def sample_browser_def connecting_manager_def
  connected_manager_def getConnectionStatus_def timers_for_def sources_for_def
  reconnect_delay_def fresh_handles_def handles_ok_def lookup_map_entry DAList.lookup_update
  manager_defs

text \<open>
  Three failures in a row with the default options (\<^verbatim>\<open>maxRetries\<close> 3) and no open in
  between: the status is \<^verbatim>\<open>reconnecting\<close>, not \<^verbatim>\<open>error\<close>, and the third retry is
  pending with a delay of 4000 ms. With \<^verbatim>\<open>{ maxRetries: undefined }\<close> the default of 3
  does not apply: the first failure ends in \<^verbatim>\<open>error\<close>. With
  \<^verbatim>\<open>{ maxRetries: 2000, retryInterval: 0 }\<close> retry 1025 is scheduled with the delay
  \<^verbatim>\<open>NaN\<close> (\<^verbatim>\<open>0 * Math.pow(2, 1024)\<close> is \<^verbatim>\<open>0 * Infinity\<close>), where
  \<open>min (0 * 2 ^ 1024) 30000\<close> is 0.
\<close>

theorem retries_not_exhausted_counterexample:
  "maxRetries (merge_options default_options None) = Some 3 \<and>
   getConnectionStatus (failures sample_browser ''r1'' 3 connecting_manager) ''r1'' =
     Some Reconnecting \<and>
   map snd (timers_for (failures sample_browser ''r1'' 3 connecting_manager) ''r1'') =
     [\<lparr> callback = Reconnect ''r1'' default_options, delay = Some (Number 4000) \<rparr>] \<and>
   getConnectionStatus
     (failures sample_browser ''r1'' 1
        (snd (connect sample_browser ''r1'' (Some undefined_retries) new_SSEManager))) ''r1'' =
     Some Error \<and>
   zero_interval_merged =
     \<lparr> maxRetries = Some 2000, retryInterval = Some 0, heartbeatTimeout = Some 30000 \<rparr> \<and>
   map (delay \<circ> snd)
     (timers_for
        (failures sample_browser ''r1'' 1025
           (snd (connect sample_browser ''r1'' (Some zero_interval) new_SSEManager))) ''r1'') =
     [Some NaN]"
proof -
  have three: "maxRetries (merge_options default_options None) = Some 3 \<and>
     getConnectionStatus (failures sample_browser ''r1'' 3 connecting_manager) ''r1'' =
       Some Reconnecting \<and>
     map snd (timers_for (failures sample_browser ''r1'' 3 connecting_manager) ''r1'') =
       [\<lparr> callback = Reconnect ''r1'' default_options, delay = Some (Number 4000) \<rparr>]"
    by (simp add: manager_eval eval_nat_numeral)
  have undef: "getConnectionStatus
     (failures sample_browser ''r1'' 1
        (snd (connect sample_browser ''r1'' (Some undefined_retries) new_SSEManager))) ''r1'' =
     Some Error"
    by (simp add: manager_eval undefined_retries_def may_retry_def)
  have merged: "zero_interval_merged =
     \<lparr> maxRetries = Some 2000, retryInterval = Some 0, heartbeatTimeout = Some 30000 \<rparr>"
    by (simp add: zero_interval_merged_def zero_interval_def merge_options_def
          default_options_def)
  have a: "fresh_handles new_SSEManager" and b: "timers_for new_SSEManager ''r1'' = []"
    and c: "sources_for new_SSEManager ''r1'' = []"
    and d: "getConnectionStatus new_SSEManager ''r1'' \<noteq> Some Connected"
    by (simp_all add: new_SSEManager_def fresh_handles_def handles_ok_def timers_for_def
          sources_for_def getConnectionStatus_def get_connection_def)
  let ?m1 = "snd (connect sample_browser ''r1'' (Some zero_interval) new_SSEManager)"
  have first:
    "if may_retry zero_interval_merged 0
     then retry_scheduled (transport_fails sample_browser ''r1'' ?m1) ''r1''
            zero_interval_merged 1
     else gave_up (transport_fails sample_browser ''r1'' ?m1) ''r1''"
    using a b c d zero_interval_merged_def refl by (rule first_failure)
  have "retry_scheduled (failures sample_browser ''r1'' 1025 ?m1) ''r1''
          zero_interval_merged 1025"
    using first by (rule failures_run) (simp_all add: retries_def merged)
  then have "map (delay \<circ> snd) (timers_for (failures sample_browser ''r1'' 1025 ?m1) ''r1'') =
               [Some (reconnect_delay zero_interval_merged 1025)]"
    by (auto simp: retry_scheduled_def split: option.splits)
  moreover have "reconnect_delay zero_interval_merged 1025 = NaN"
    by (simp add: reconnect_delay_def merged)
  ultimately have nan:
    "map (delay \<circ> snd) (timers_for (failures sample_browser ''r1'' 1025 ?m1) ''r1'') =
       [Some NaN]"
    by simp
  from three undef merged nan show ?thesis by blast
qed

text \<open>
  C4, as the manager has it. Take a manager in which nothing is pending or open for
  \<open>rid\<close> and \<open>rid\<close> is not connected, call \<^verbatim>\<open>connect\<close>, and let every attempt fail
  with no successful open, whether the EventSource fires \<^verbatim>\<open>onerror\<close> or its
  constructor throws. \<open>retries opts\<close> is \<^verbatim>\<open>maxRetries\<close> of the merged options (0 where
  that is negative or \<^verbatim>\<open>undefined\<close>). After failure \<open>k\<close>, for \<open>1 \<le> k \<le> retries opts\<close>, the
  status is \<^verbatim>\<open>reconnecting\<close> and exactly one reconnect is pending, retry \<open>k\<close>, with the
  delay that the code computes; that delay is \<open>min (retryInterval * 2 ^ (k - 1)) 30000\<close>
  when \<^verbatim>\<open>retryInterval\<close> is a positive number, and also when it is zero or negative as
  long as \<open>k \<le> 1024\<close> and the product is in the range of the doubles. After failure
  \<open>retries opts + 1\<close> (the first attempt and all retries have failed) the status is
  \<^verbatim>\<open>error\<close>; from then on, whatever events the browser delivers, no timer is pending and
  no EventSource is open for \<open>rid\<close>; an explicit \<^verbatim>\<open>connect\<close> opens one again (where the
  constructor returns).
\<close>

theorem reconnection_schedule:
  assumes "fresh_handles m" and "timers_for m rid = []" and "sources_for m rid = []"
    and "getConnectionStatus m rid \<noteq> Some Connected"
    and "opts = merge_options default_options options"
    and "m1 = snd (connect br rid options m)"
    and "mE = failures br rid (retries opts + 1) m1"
  shows "(1 \<le> k \<and> k \<le> retries opts \<longrightarrow>
            getConnectionStatus (failures br rid k m1) rid = Some Reconnecting \<and>
            map snd (timers_for (failures br rid k m1) rid) =
              [\<lparr> callback = Reconnect rid opts, delay = Some (reconnect_delay opts k) \<rparr>] \<and>
            (retryInterval opts = Some x \<and>
             (0 < x \<or> k \<le> 1024 \<and> - (x * 2 ^ (k - 1)) < 2 ^ 1024) \<longrightarrow>
               reconnect_delay opts k = Number (min (x * 2 ^ (k - 1)) 30000))) \<and>
         getConnectionStatus mE rid = Some Error \<and>
         timers_for (fold (\<lambda>e. deliver (fst e) (snd e)) evs mE) rid = [] \<and>
         sources_for (fold (\<lambda>e. deliver (fst e) (snd e)) evs mE) rid = [] \<and>
         (EventSource_constructs br' \<longrightarrow>
            length (sources_for (snd (connect br' rid options' mE)) rid) = 1)"
proof -
  have first: "if may_retry opts 0 then retry_scheduled (transport_fails br rid m1) rid opts 1
               else gave_up (transport_fails br rid m1) rid"
    using assms(1-6) by (rule first_failure)
  have retry: "getConnectionStatus (failures br rid k m1) rid = Some Reconnecting \<and>
            map snd (timers_for (failures br rid k m1) rid) =
              [\<lparr> callback = Reconnect rid opts, delay = Some (reconnect_delay opts k) \<rparr>]"
    if "1 \<le> k" and "k \<le> retries opts"
  proof -
    from first that have "retry_scheduled (failures br rid k m1) rid opts k"
      by (rule failures_run)
    then show ?thesis
      by (auto simp: retry_scheduled_def getConnectionStatus_def split: option.splits)
  qed
  have formula: "reconnect_delay opts k = Number (min (x * 2 ^ (k - 1)) 30000)"
    if "1 \<le> k" and "retryInterval opts = Some x"
      and "0 < x \<or> k \<le> 1024 \<and> - (x * 2 ^ (k - 1)) < 2 ^ 1024"
  proof (cases "0 < x")
    case True
    with that(2) show ?thesis by (simp add: reconnect_delay_def)
  next
    case False
    with that(3) have small: "k \<le> 1024" "- (x * 2 ^ (k - 1)) < 2 ^ 1024" by simp_all
    from small(1) that(1) have lt: "k - 1 < 1024" by simp
    from False have "x * 2 ^ (k - 1) \<le> 0" by (simp add: mult_le_0_iff)
    then have "min (x * 2 ^ (k - 1)) 30000 = x * 2 ^ (k - 1)" by simp
    with False that(2) lt small(2) show ?thesis
      by (cases "x = 0") (simp_all add: reconnect_delay_def)
  qed
  have "gave_up mE rid"
    unfolding assms(7) using failures_exhausted [OF first] by simp
  then have err: "getConnectionStatus mE rid = Some Error" and q: "quiet mE rid"
    and fresh: "fresh_handles mE"
    by (auto simp: gave_up_def getConnectionStatus_def quiet_def split: option.splits)
  from q have "quiet (fold (\<lambda>e. deliver (fst e) (snd e)) evs mE) rid"
    by (rule quiet_events)
  then have ever: "timers_for (fold (\<lambda>e. deliver (fst e) (snd e)) evs mE) rid = []"
    "sources_for (fold (\<lambda>e. deliver (fst e) (snd e)) evs mE) rid = []"
    by (simp_all add: quiet_def)
  have again: "length (sources_for (snd (connect br' rid options' mE)) rid) = 1"
    if "EventSource_constructs br'"
  proof -
    from q have "timers_for mE rid = []" "sources_for mE rid = []"
      by (simp_all add: quiet_def)
    with fresh have "attempt_in_flight (snd (connect br' rid options' mE)) rid
                       (merge_options default_options options') 0"
      using err that by (intro connect_attempt) simp_all
    then show ?thesis
      by (auto simp: attempt_in_flight_def split: option.splits)
  qed
  from retry formula err ever again show ?thesis by blast
qed

text \<open>
  A new manager, \<^verbatim>\<open>connect('r1')\<close> with the default options: retry 3 after 4000 ms,
  \<^verbatim>\<open>error\<close> after the fourth failure, nothing pending when the old handles fire, and
  one EventSource after another \<^verbatim>\<open>connect\<close>.
\<close>

theorem reconnection_schedule_witness:
  "fresh_handles new_SSEManager \<and> timers_for new_SSEManager ''r1'' = [] \<and>
   sources_for new_SSEManager ''r1'' = [] \<and>
   getConnectionStatus new_SSEManager ''r1'' \<noteq> Some Connected \<and>
   EventSource_constructs sample_browser \<and>
   retries (merge_options default_options None) = 3 \<and>
   retryInterval (merge_options default_options None) = Some 1000 \<and>
   getConnectionStatus (failures sample_browser ''r1'' 3 connecting_manager) ''r1'' =
     Some Reconnecting \<and>
   map snd (timers_for (failures sample_browser ''r1'' 3 connecting_manager) ''r1'') =
     [\<lparr> callback = Reconnect ''r1'' default_options, delay = Some (Number 4000) \<rparr>] \<and>
   getConnectionStatus (failures sample_browser ''r1'' 4 connecting_manager) ''r1'' = Some Error \<and>
   timers_for
     (fold (\<lambda>e. deliver (fst e) (snd e))
        [(sample_browser, Timer_fires 6), (sample_browser, ES_error 5)]
        (failures sample_browser ''r1'' 4 connecting_manager)) ''r1'' = [] \<and>
   length (sources_for
     (snd (connect sample_browser ''r1'' None
        (failures sample_browser ''r1'' 4 connecting_manager))) ''r1'') = 1"
proof -
  have a: "fresh_handles new_SSEManager" and b: "timers_for new_SSEManager ''r1'' = []"
    and c: "sources_for new_SSEManager ''r1'' = []"
    and d: "getConnectionStatus new_SSEManager ''r1'' \<noteq> Some Connected"
    and e: "EventSource_constructs sample_browser"
    by (simp_all add: new_SSEManager_def fresh_handles_def handles_ok_def timers_for_def
          sources_for_def getConnectionStatus_def get_connection_def sample_browser_def)
  have opts: "default_options = merge_options default_options None"
    and three: "retries (merge_options default_options None) = 3"
    and interval: "retryInterval (merge_options default_options None) = Some 1000"
    by (simp_all add: merge_options_def default_options_def retries_def)
  have m1: "connecting_manager = snd (connect sample_browser ''r1'' None new_SSEManager)"
    by (simp add: connecting_manager_def)
  have mE: "failures sample_browser ''r1'' 4 connecting_manager =
              failures sample_browser ''r1'' (retries default_options + 1) connecting_manager"
    by (simp add: default_options_def retries_def)
  have k: "1 \<le> (3::nat) \<and> 3 \<le> retries default_options"
    and x: "retryInterval default_options = Some 1000 \<and> (0::int) < 1000"
    and ms: "min ((1000::int) * 2 ^ (3 - 1)) 30000 = 4000"
    by (simp_all add: default_options_def retries_def)
  from reconnection_schedule [OF a b c d opts m1 mE, of 3 1000
      "[(sample_browser, Timer_fires 6), (sample_browser, ES_error 5)]" sample_browser None]
    k x ms e
  have "getConnectionStatus (failures sample_browser ''r1'' 3 connecting_manager) ''r1'' =
          Some Reconnecting \<and>
        map snd (timers_for (failures sample_browser ''r1'' 3 connecting_manager) ''r1'') =
          [\<lparr> callback = Reconnect ''r1'' default_options, delay = Some (Number 4000) \<rparr>] \<and>
        getConnectionStatus (failures sample_browser ''r1'' 4 connecting_manager) ''r1'' =
          Some Error \<and>
        timers_for
          (fold (\<lambda>e. deliver (fst e) (snd e))
             [(sample_browser, Timer_fires 6), (sample_browser, ES_error 5)]
             (failures sample_browser ''r1'' 4 connecting_manager)) ''r1'' = [] \<and>
        length (sources_for
          (snd (connect sample_browser ''r1'' None
             (failures sample_browser ''r1'' 4 connecting_manager))) ''r1'') = 1"
    by simp
  with a b c d e three interval show ?thesis by blast
qed

text \<open>
  C9. \<^verbatim>\<open>connect\<close> on an id whose connection is \<^verbatim>\<open>connected\<close> returns true and leaves
  the manager as it is (connection, EventSources, timers, emitted events), and so does
  a second call: no further EventSource is opened.
\<close>

theorem connect_idempotent:
  assumes "getConnectionStatus m rid = Some Connected"
  shows "connect br rid options m = (True, m) \<and>
         connect br' rid options' (snd (connect br rid options m)) = (True, m)"
  using assms
  by (auto simp: connect_def getConnectionStatus_def split: option.splits)

text \<open>The sample connection once its EventSource has opened: one EventSource, before and after.\<close>

theorem connect_idempotent_witness:
  "getConnectionStatus connected_manager ''r1'' = Some Connected \<and>
   map fst (open_sources connected_manager) = [1] \<and>
   connect sample_browser ''r1'' None connected_manager = (True, connected_manager) \<and>
   connect sample_browser ''r1'' None
     (snd (connect sample_browser ''r1'' None connected_manager)) = (True, connected_manager)"
proof -
  have c: "getConnectionStatus connected_manager ''r1'' = Some Connected"
    and s: "map fst (open_sources connected_manager) = [1]"
    by (simp_all add: manager_eval)
  from connect_idempotent [OF c, of sample_browser None sample_browser None] c s
  show ?thesis by simp
qed

section \<open>Properties of polling and of the completion monitor\<close>

lemma stamp_jobs_find:
  "map_option status (find (\<lambda>j. requestId j = rid) (fst (stamp_jobs rt n js))) =
   map_option status (find (\<lambda>j. requestId j = rid) js)"
  by (induction js arbitrary: n) (simp_all add: Let_def case_prod_beta)

lemma disconnect_gone: "getConnectionStatus (disconnect rid m) rid = None"
  by (auto simp: getConnectionStatus_def disconnect_def manager_defs lookup_map_entry
           split: option.splits)

lemma disconnect_keeps_gone:
  "getConnectionStatus m rid = None \<Longrightarrow> getConnectionStatus (disconnect rid' m) rid = None"
  by (auto simp: getConnectionStatus_def disconnect_def manager_defs lookup_map_entry
           split: option.splits if_splits)

lemma fold_disconnect_keeps_gone:
  "getConnectionStatus m rid = None \<Longrightarrow>
   getConnectionStatus (fold (\<lambda>r m. if c r then disconnect r m else m) xs m) rid = None"
  by (induction xs arbitrary: m) (simp_all add: disconnect_keeps_gone)

lemma fold_disconnect_gone:
  "rid \<in> set xs \<Longrightarrow> c rid \<Longrightarrow>
   getConnectionStatus (fold (\<lambda>r m. if c r then disconnect r m else m) xs m) rid = None"
proof (induction xs arbitrary: m)
  case Nil
  then show ?case by simp
next
  case (Cons x xs)
  show ?case
  proof (cases "x = rid")
    case True
    with Cons.prems(2) show ?thesis
      by (simp add: fold_disconnect_keeps_gone disconnect_gone)
  next
    case False
    with Cons.prems have "rid \<in> set xs" by simp
    then show ?thesis using Cons.prems(2) Cons.IH by simp
  qed
qed

lemma refreshJobs_disconnects:
  assumes "rid \<in> set (getActiveConnections (prov_manager p))"
    and "map_option status (find (\<lambda>j. requestId j = rid) data_jobs) \<noteq> Some RUNNING"
  shows "getConnectionStatus
           (prov_manager (refreshJobs rt br (Response_ok data_jobs data_queuedScans) p)) rid = None"
proof -
  obtain jobs' n where st: "stamp_jobs rt 0 data_jobs = (jobs', n)" by (metis surj_pair)
  obtain qs n' where sq: "stamp_queuedScans rt n data_queuedScans = (qs, n')"
    by (metis surj_pair)
  let ?c = "\<lambda>r. map_option status (find (\<lambda>j. requestId j = r) jobs') \<noteq> Some RUNNING"
  have step: "(\<lambda>rid m. case find (\<lambda>j. requestId j = rid) jobs' of
                         None \<Rightarrow> disconnect rid m
                       | Some job \<Rightarrow> if status job \<noteq> RUNNING then disconnect rid m else m) =
              (\<lambda>r m. if ?c r then disconnect r m else m)"
    by (auto simp: fun_eq_iff split: option.splits)
  from stamp_jobs_find [of rid rt 0 data_jobs] st assms(2) have "?c rid" by simp
  with assms(1) show ?thesis
    unfolding refreshJobs_def fetch_result.case st sq Let_def prod.case step
    by (simp add: fold_disconnect_gone)
qed

text \<open>
  A poll answers that \<open>r1\<close>, whose channel is connected, is \<^verbatim>\<open>SUCCESS\<close>:
  \<^verbatim>\<open>refreshJobs\<close> has removed and closed the channel when it returns, while the
  completion monitor, which sees the transition afterwards, calls the callback and
  sets its timer of 2000 ms for a channel that is gone already. And a job that is
  \<^verbatim>\<open>QUEUED\<close> in the map, is dropped by \<^verbatim>\<open>AUTO_CLEANUP\<close> and is then reported
  \<^verbatim>\<open>SUCCESS\<close> by a progress event: neither run of the monitor calls the callback or
  schedules a disconnect.
\<close>

theorem grace_delay_counterexample:
  "getConnectionStatus (prov_manager sample_provider) ''r1'' = Some Connected \<and>
   length (sources_for (prov_manager sample_provider) ''r1'') = 1 \<and>
   getConnectionStatus
     (prov_manager (refreshJobs sample_runtime sample_browser sample_poll sample_provider))
     ''r1'' = None \<and>
   sources_for
     (prov_manager (refreshJobs sample_runtime sample_browser sample_poll sample_provider))
     ''r1'' = [] \<and>
   filter (\<lambda>e. effect_requestId e = ''r1'')
     (fst (completion_monitor (Some ''onScanComplete'') (jobs (prov_state sample_provider))
        (jobs (prov_state
           (refreshJobs sample_runtime sample_browser sample_poll sample_provider))))) =
   [OnScanComplete ''onScanComplete''
      (sample_job ''r1'' SUCCESS 100 ''2024-01-01T00:00:31.000Z''),
    SetTimeout_disconnect ''r1'' 2000] \<and>
   map_option status (DAList.lookup (jobs queued_state) ''q1'') = Some QUEUED \<and>
   fst (completion_monitor (Some ''onScanComplete'') (jobs queued_state)
          (jobs (scanningReducer sample_runtime queued_state AUTO_CLEANUP))) = [] \<and>
   map_option status
     (DAList.lookup
        (jobs (scanningReducer sample_runtime
           (scanningReducer sample_runtime queued_state AUTO_CLEANUP)
           (UPDATE_SCAN_PROGRESS success_event))) ''q1'') = Some SUCCESS \<and>
   fst (completion_monitor (Some ''onScanComplete'')
          (jobs (scanningReducer sample_runtime queued_state AUTO_CLEANUP))
          (jobs (scanningReducer sample_runtime
             (scanningReducer sample_runtime queued_state AUTO_CLEANUP)
             (UPDATE_SCAN_PROGRESS success_event)))) = []"
  by (simp add: manager_eval sample_provider_def sample_poll_def refreshJobs_def
        getActiveConnections_def disconnect_def completion_monitor_def monitor_entry_def
        monitor_before_def sample_job_def sample_runtime_def queued_state_def
        success_event_def forEach_set_def cleanup_keeps_def updatedJob_def
        DAList.update.rep_eq DAList.empty.rep_eq DAList.delete.rep_eq)

text \<open>
  C8, as the provider has it. One run of the completion monitor on a job map whose
  previous content is \<open>previousJobs\<close>, with a callback registered. For a job that is
  now \<^verbatim>\<open>SUCCESS\<close> and was stored before with another status, the effects that concern
  it are exactly one call of the callback with that job, followed by one
  \<^verbatim>\<open>setTimeout\<close> of 2000 ms whose callback disconnects it. For a job that is now
  \<^verbatim>\<open>FAILED\<close> or \<^verbatim>\<open>CANCELLED\<close> and was \<^verbatim>\<open>RUNNING\<close>, they are exactly one immediate
  \<^verbatim>\<open>disconnect\<close>, and no call of the callback. For a job whose status is the one
  stored before, and for a job that was not stored before, there is no effect. The run leaves the current map in
  \<^verbatim>\<open>previousJobsRef\<close>, and a further run on an unchanged map has no effect at all, so
  a transition is reported once. The delay of 2000 ms is the monitor's alone: a poll
  whose answer does not show a job \<^verbatim>\<open>RUNNING\<close> removes the connected channel of that
  job at once.
\<close>

theorem completion_monitor_transitions:
  assumes "keyed_by_requestId currentJobs"
    and "DAList.lookup currentJobs rid = Some job"
  shows "(\<forall>previousJob. DAList.lookup previousJobs rid = Some previousJob \<longrightarrow>
            (status job = SUCCESS \<and> status previousJob \<noteq> SUCCESS \<longrightarrow>
               filter (\<lambda>e. effect_requestId e = rid)
                 (fst (completion_monitor (Some cb) previousJobs currentJobs)) =
               [OnScanComplete cb job, SetTimeout_disconnect rid 2000]) \<and>
            ((status job = FAILED \<or> status job = CANCELLED) \<and> status previousJob = RUNNING \<longrightarrow>
               filter (\<lambda>e. effect_requestId e = rid)
                 (fst (completion_monitor (Some cb) previousJobs currentJobs)) =
               [Disconnect_now rid]) \<and>
            (status job = status previousJob \<longrightarrow>
               filter (\<lambda>e. effect_requestId e = rid)
                 (fst (completion_monitor (Some cb) previousJobs currentJobs)) = [])) \<and>
         (DAList.lookup previousJobs rid = None \<longrightarrow>
            filter (\<lambda>e. effect_requestId e = rid)
              (fst (completion_monitor (Some cb) previousJobs currentJobs)) = []) \<and>
         snd (completion_monitor (Some cb) previousJobs currentJobs) = currentJobs \<and>
         fst (completion_monitor (Some cb) currentJobs currentJobs) = [] \<and>
         (rid' \<in> set (getActiveConnections (prov_manager p)) \<and>
          map_option status (find (\<lambda>j. requestId j = rid') data_jobs) \<noteq> Some RUNNING \<longrightarrow>
            getConnectionStatus
              (prov_manager (refreshJobs rt br (Response_ok data_jobs data_queuedScans) p))
              rid' = None)"
proof -
  have "filter (\<lambda>e. effect_requestId e = rid)
          (fst (completion_monitor (Some cb) previousJobs currentJobs)) =
        monitor_entry (Some cb) previousJobs (rid, job)"
    using assms(1,2) by (rule monitor_effects_of)
  moreover have "snd (completion_monitor (Some cb) previousJobs currentJobs) = currentJobs"
    by (simp add: completion_monitor_def)
  ultimately show ?thesis
    by (auto simp: monitor_entry_def monitor_unchanged refreshJobs_disconnects)
qed

text \<open>
  Between the two sample maps job \<open>r1\<close> goes from \<^verbatim>\<open>RUNNING\<close> to \<^verbatim>\<open>SUCCESS\<close> and job
  \<open>r2\<close> from \<^verbatim>\<open>RUNNING\<close> to \<^verbatim>\<open>FAILED\<close>; with an empty previous map nothing happens for
  \<open>r1\<close>; the sample poll removes the channel of \<open>r1\<close>.
\<close>

theorem completion_monitor_transitions_witness:
  "keyed_by_requestId monitor_after \<and>
   DAList.lookup monitor_after ''r1'' =
     Some (sample_job ''r1'' SUCCESS 100 ''2024-01-01T00:00:05.000Z'') \<and>
   DAList.lookup monitor_before ''r1'' =
     Some (sample_job ''r1'' RUNNING 90 ''2024-01-01T00:00:00.000Z'') \<and>
   filter (\<lambda>e. effect_requestId e = ''r1'')
     (fst (completion_monitor (Some ''onScanComplete'') monitor_before monitor_after)) =
   [OnScanComplete ''onScanComplete'' (sample_job ''r1'' SUCCESS 100 ''2024-01-01T00:00:05.000Z''),
    SetTimeout_disconnect ''r1'' 2000] \<and>
   fst (completion_monitor (Some ''onScanComplete'') monitor_after monitor_after) = [] \<and>
   DAList.lookup monitor_after ''r2'' =
     Some (sample_job ''r2'' FAILED 40 ''2024-01-01T00:00:05.000Z'') \<and>
   DAList.lookup monitor_before ''r2'' =
     Some (sample_job ''r2'' RUNNING 40 ''2024-01-01T00:00:00.000Z'') \<and>
   filter (\<lambda>e. effect_requestId e = ''r2'')
     (fst (completion_monitor (Some ''onScanComplete'') monitor_before monitor_after)) =
   [Disconnect_now ''r2''] \<and>
   DAList.lookup (DAList.empty :: ScanJob js_map) ''r1'' = None \<and>
   filter (\<lambda>e. effect_requestId e = ''r1'')
     (fst (completion_monitor (Some ''onScanComplete'') DAList.empty monitor_after)) = [] \<and>
   ''r1'' \<in> set (getActiveConnections (prov_manager sample_provider)) \<and>
   map_option status
     (find (\<lambda>j. requestId j = ''r1'')
        [sample_job ''r1'' SUCCESS 100 ''2024-01-01T00:00:28.000Z'',
         sample_job ''r2'' RUNNING 50 ''2024-01-01T00:00:28.000Z'']) = Some SUCCESS \<and>
   getConnectionStatus
     (prov_manager (refreshJobs sample_runtime sample_browser sample_poll sample_provider))
     ''r1'' = None"
proof -
  have k: "keyed_by_requestId monitor_after"
    by (simp add: keyed_by_requestId_def monitor_after_def DAList.update.rep_eq
          DAList.empty.rep_eq sample_job_def)
  have c1: "DAList.lookup monitor_after ''r1'' =
             Some (sample_job ''r1'' SUCCESS 100 ''2024-01-01T00:00:05.000Z'')"
    and c2: "DAList.lookup monitor_after ''r2'' =
             Some (sample_job ''r2'' FAILED 40 ''2024-01-01T00:00:05.000Z'')"
    by (simp_all add: monitor_after_def)
  have p1: "DAList.lookup monitor_before ''r1'' =
             Some (sample_job ''r1'' RUNNING 90 ''2024-01-01T00:00:00.000Z'')"
    and p2: "DAList.lookup monitor_before ''r2'' =
             Some (sample_job ''r2'' RUNNING 40 ''2024-01-01T00:00:00.000Z'')"
    and p0: "DAList.lookup (DAList.empty :: ScanJob js_map) ''r1'' = None"
    by (simp_all add: monitor_before_def)
  have a: "''r1'' \<in> set (getActiveConnections (prov_manager sample_provider))"
    by (simp add: sample_provider_def getActiveConnections_def manager_eval
          DAList.update.rep_eq DAList.empty.rep_eq)
  have f: "map_option status
     (find (\<lambda>j. requestId j = ''r1'')
        [sample_job ''r1'' SUCCESS 100 ''2024-01-01T00:00:28.000Z'',
         sample_job ''r2'' RUNNING 50 ''2024-01-01T00:00:28.000Z'']) = Some SUCCESS"
    by (simp add: sample_job_def)
  have poll: "sample_poll =
     Response_ok [sample_job ''r1'' SUCCESS 100 ''2024-01-01T00:00:28.000Z'',
                  sample_job ''r2'' RUNNING 50 ''2024-01-01T00:00:28.000Z''] []"
    by (simp add: sample_poll_def)
  from completion_monitor_transitions [OF k c1, of monitor_before "''onScanComplete''"
      "''r1''" sample_provider
      "[sample_job ''r1'' SUCCESS 100 ''2024-01-01T00:00:28.000Z'',
        sample_job ''r2'' RUNNING 50 ''2024-01-01T00:00:28.000Z'']"
      sample_runtime sample_browser "[]"] p1 a f
  have one: "filter (\<lambda>e. effect_requestId e = ''r1'')
     (fst (completion_monitor (Some ''onScanComplete'') monitor_before monitor_after)) =
     [OnScanComplete ''onScanComplete''
        (sample_job ''r1'' SUCCESS 100 ''2024-01-01T00:00:05.000Z''),
      SetTimeout_disconnect ''r1'' 2000] \<and>
     fst (completion_monitor (Some ''onScanComplete'') monitor_after monitor_after) = [] \<and>
     getConnectionStatus
       (prov_manager (refreshJobs sample_runtime sample_browser sample_poll sample_provider))
       ''r1'' = None"
    by (simp add: sample_job_def poll)
  from completion_monitor_transitions [OF k c2, of monitor_before "''onScanComplete''"] p2
  have two: "filter (\<lambda>e. effect_requestId e = ''r2'')
     (fst (completion_monitor (Some ''onScanComplete'') monitor_before monitor_after)) =
     [Disconnect_now ''r2'']"
    by (simp add: sample_job_def)
  from completion_monitor_transitions [OF k c1, of DAList.empty "''onScanComplete''"] p0
  have three: "filter (\<lambda>e. effect_requestId e = ''r1'')
     (fst (completion_monitor (Some ''onScanComplete'') DAList.empty monitor_after)) = []"
    by simp
  from k c1 c2 p1 p2 p0 a f one two three show ?thesis by blast
qed

end
